theory Spec2Isabelle
  imports Complex_Main "HOL-Library.AList" "HOL-Library.Char_ord" "HOL-Library.List_Lexorder"
begin

section \<open>JavaScript values used by the worker\<close>

text \<open>
  Numbers are modelled as exact rationals. A numeric field that can be missing is a
  \<open>rat option\<close>: \<open>None\<close> stands for \<open>undefined\<close> (and for \<open>NaN\<close>,
  which behaves the same way under \<open>!x\<close>, \<open>x || d\<close> and \<open>+\<close>).
\<close>

type_synonym jsnum = "rat option"

definition truthy :: "jsnum \<Rightarrow> bool" where
  \<comment> \<open>JS truthiness of a number: \<open>undefined\<close>, \<open>NaN\<close> and \<open>0\<close> are falsy.\<close>
  "truthy v = (case v of None \<Rightarrow> False | Some x \<Rightarrow> x \<noteq> 0)"

definition js_or :: "jsnum \<Rightarrow> rat \<Rightarrow> rat" where
  \<comment> \<open>\<open>v || d\<close> with a numeric default \<open>d\<close>.\<close>
  "js_or v d = (case v of None \<Rightarrow> d | Some x \<Rightarrow> if x \<noteq> 0 then x else d)"


definition Math_round :: "rat \<Rightarrow> rat" where
  \<comment> \<open>\<open>Math.round\<close>: nearest integer, halves towards plus infinity.\<close>
  "Math_round x = of_int \<lfloor>x + 1 / 2\<rfloor>"

section \<open>Confidence calculator\<close>

record interval =
  estimate :: jsnum
  lower :: jsnum
  upper :: jsnum
  sampleSize :: jsnum

record conf_percent = interval +
  percent :: rat

definition calculateConfidencePercentage :: "interval option \<Rightarrow> conf_percent option" where
  "calculateConfidencePercentage c =
     (case c of
        None \<Rightarrow> None
      | Some conf \<Rightarrow>
          if \<not> truthy (estimate conf) then None
          else
            let est = the (estimate conf);
                lo = js_or (lower conf) est;
                up = js_or (upper conf) est;
                intervalWidth = up - lo;
                relativeWidth = intervalWidth / (2 * est);
                confidencePercent = max 0 (min 100 (100 * (1 - relativeWidth)))
            in Some \<lparr> estimate = estimate conf, lower = lower conf, upper = upper conf,
                      sampleSize = sampleSize conf,
                      percent = Math_round (confidencePercent * 10) / 10 \<rparr>)"

definition ConfidencePercent :: "rat \<Rightarrow> rat \<Rightarrow> rat \<Rightarrow> rat" where
  \<comment> \<open>The documented formula: \<open>100 * (1 - (upper-lower)/(2*estimate))\<close>, clamped to
      \<open>[0,100]\<close> and rounded to one decimal.\<close>
  "ConfidencePercent est lo up =
     Math_round (max 0 (min 100 (100 * (1 - (up - lo) / (2 * est)))) * 10) / 10"

section \<open>Per-account metrics and the cross-account aggregator\<close>

text \<open>
  The field names \<open>requests\<close>, \<open>bytes\<close>, \<open>dnsQueries\<close> occur in totals, in the
  confidence triple, in time-series entries and in zones; one polymorphic record carries
  them all. The parameter is \<open>jsnum\<close> where the code reads a field through
  \<open>x || 0\<close>, and \<open>rat\<close> where the code has just computed the number.
\<close>

record 'n totals =
  requests :: 'n
  bytes :: 'n
  dnsQueries :: 'n

record ('n, 'c) current_totals = "'n totals" +
  confidence :: 'c

text \<open>
  A time-series entry. \<open>timestamp\<close> is the instant \<open>new Date(entry.timestamp)\<close>
  denotes, in milliseconds; the entries are written by the worker with
  \<open>toISOString()\<close>, so the date is always valid.
\<close>

record 'n ts_entry = "'n totals" +
  month :: string
  timestamp :: int

record 'n zone = "'n totals" +
  zoneTag :: string
  zoneName :: string
  isPrimary :: bool

record ('n, 'z) breakdown =
  primary :: 'n
  secondary :: 'n
  zones :: 'z

record ('cur, 'prev, 'ts, 'zb) metrics =
  current :: 'cur
  previous :: 'prev
  timeSeries :: 'ts
  zoneBreakdown :: 'zb
  previousMonthZoneBreakdown :: 'zb

type_synonym conf_triple = "conf_percent option totals"

record AccountMetrics =
  "((jsnum, conf_triple option) current_totals, jsnum totals,
    jsnum ts_entry list option, (jsnum, rat zone list option) breakdown) metrics" +
  accountId :: string
  accountName :: "string option"








definition mergeTimeSeriesEntry ::
  "jsnum ts_entry \<Rightarrow> (string \<times> rat ts_entry) list \<Rightarrow> (string \<times> rat ts_entry) list" where
  \<comment> \<open>One step of the inner \<open>forEach\<close> over a \<open>Map\<close> kept in insertion order.\<close>
  "mergeTimeSeriesEntry entry timeSeriesMap =
     (case map_of timeSeriesMap (month entry) of
        Some existing \<Rightarrow>
          AList.update (month entry)
            (existing\<lparr> requests := requests existing + js_or (requests entry) 0,
                        bytes := bytes existing + js_or (bytes entry) 0,
                        dnsQueries := dnsQueries existing + js_or (dnsQueries entry) 0 \<rparr>)
            timeSeriesMap
      | None \<Rightarrow>
          AList.update (month entry)
            \<lparr> requests = js_or (requests entry) 0, bytes = js_or (bytes entry) 0,
              dnsQueries = js_or (dnsQueries entry) 0,
              month = month entry, timestamp = timestamp entry \<rparr>
            timeSeriesMap)"

definition mergeAccountTimeSeries ::
  "AccountMetrics \<Rightarrow> (string \<times> rat ts_entry) list \<Rightarrow> (string \<times> rat ts_entry) list" where
  "mergeAccountTimeSeries accountData timeSeriesMap =
     (case timeSeries accountData of
        None \<Rightarrow> timeSeriesMap
      | Some ts \<Rightarrow> fold mergeTimeSeriesEntry ts timeSeriesMap)"

definition mergedTimeSeries :: "AccountMetrics list \<Rightarrow> rat ts_entry list" where
  \<comment> \<open>\<open>Array.from(timeSeriesMap.values()).sort((a, b) => new Date(a.timestamp) - new Date(b.timestamp))\<close>;
      the sort is stable.\<close>
  "mergedTimeSeries accountMetrics =
     sort_key timestamp (map snd (fold mergeAccountTimeSeries accountMetrics []))"











section \<open>Add-on aggregation inside the progressive response builder\<close>

text \<open>
  One element of \<open>apiShieldAccounts\<close> (likewise \<open>pageShieldAccounts\<close>,
  \<open>rateLimitingAccounts\<close>, \<open>botMgmtData\<close>): \<open>{ accountId, data }\<close> with
  \<open>data.current = { requests, zones, confidence }\<close>. The zone-filtered add-ons take
  \<open>data.current.confidence\<close> from the account's own HTTP-request confidence.
\<close>

record addonCurrent =
  addon_requests :: rat
  addon_zones :: "string list"
  addon_confidence :: "conf_percent option"

record addonAccount =
  addon_accountId :: string
  data_current :: addonCurrent


section \<open>Fixtures\<close>






section \<open>Time-series merge, stated declaratively\<close>

definition allEntries :: "AccountMetrics list \<Rightarrow> jsnum ts_entry list" where
  \<comment> \<open>Every time-series entry of every account, in the order the two nested loops visit them.\<close>
  "allEntries accountMetrics =
     concat (map (\<lambda>a. case timeSeries a of None \<Rightarrow> [] | Some ts \<Rightarrow> ts) accountMetrics)"

definition monthTotal :: "(jsnum ts_entry \<Rightarrow> jsnum) \<Rightarrow> string \<Rightarrow> jsnum ts_entry list \<Rightarrow> rat" where
  "monthTotal f k es = sum_list (map (\<lambda>e. js_or (f e) 0) (filter (\<lambda>e. month e = k) es))"

definition expectedMonth :: "string \<Rightarrow> jsnum ts_entry list \<Rightarrow> rat ts_entry list" where
  \<comment> \<open>The merged entries of month \<open>k\<close>: none when no account has the month, otherwise one
      entry with the field-wise sums and the timestamp of the first entry seen.\<close>
  "expectedMonth k es =
     (case find (\<lambda>e. month e = k) es of
        None \<Rightarrow> []
      | Some e0 \<Rightarrow>
          [\<lparr> requests = monthTotal requests k es, bytes = monthTotal bytes k es,
             dnsQueries = monthTotal dnsQueries k es, month = k, timestamp = timestamp e0 \<rparr>])"

definition accountWithSeries :: "string \<Rightarrow> jsnum ts_entry list \<Rightarrow> AccountMetrics" where
  "accountWithSeries aid ts =
     \<lparr> current = \<lparr> requests = Some 0, bytes = Some 0, dnsQueries = Some 0, confidence = None \<rparr>,
       previous = \<lparr> requests = Some 0, bytes = Some 0, dnsQueries = Some 0 \<rparr>,
       timeSeries = Some ts,
       zoneBreakdown = \<lparr> primary = Some 0, secondary = Some 0, zones = Some [] \<rparr>,
       previousMonthZoneBreakdown = \<lparr> primary = Some 0, secondary = Some 0, zones = Some [] \<rparr>,
       accountId = aid, accountName = None \<rparr>"

definition seriesEntry :: "string \<Rightarrow> int \<Rightarrow> rat \<Rightarrow> jsnum ts_entry" where
  \<comment> \<open>\<open>{month, timestamp, requests}\<close> with \<open>bytes\<close> and \<open>dnsQueries\<close> left out.\<close>
  "seriesEntry m t r = \<lparr> requests = Some r, bytes = None, dnsQueries = None, month = m, timestamp = t \<rparr>"

text \<open>Auxiliary notions for the proofs about the merge loop.\<close>

definition ts_inv :: "(string \<times> rat ts_entry) list \<Rightarrow> bool" where
  "ts_inv m = (distinct (map fst m) \<and> list_all (\<lambda>(k, v). month v = k) m)"

definition mergedValue :: "jsnum ts_entry \<Rightarrow> rat ts_entry option \<Rightarrow> rat ts_entry" where
  "mergedValue entry ex =
     (case ex of
        Some existing \<Rightarrow>
          existing\<lparr> requests := requests existing + js_or (requests entry) 0,
                      bytes := bytes existing + js_or (bytes entry) 0,
                      dnsQueries := dnsQueries existing + js_or (dnsQueries entry) 0 \<rparr>
      | None \<Rightarrow>
          \<lparr> requests = js_or (requests entry) 0, bytes = js_or (bytes entry) 0,
            dnsQueries = js_or (dnsQueries entry) 0,
            month = month entry, timestamp = timestamp entry \<rparr>)"

definition addMonth :: "string \<Rightarrow> jsnum ts_entry list \<Rightarrow> rat ts_entry \<Rightarrow> rat ts_entry" where
  "addMonth k es v = v\<lparr> requests := requests v + monthTotal requests k es,
                        bytes := bytes v + monthTotal bytes k es,
                        dnsQueries := dnsQueries v + monthTotal dnsQueries k es \<rparr>"

section \<open>Configuration, key-value store and environment\<close>

datatype error = TypeError | SyntaxError | NetworkError | Failure string

record serviceConfig =
  enabled :: "bool option"
  threshold :: jsnum

record applicationServices =
  core :: "serviceConfig option"
  botManagement :: "serviceConfig option"
  apiShield :: "serviceConfig option"
  pageShield :: "serviceConfig option"
  advancedRateLimiting :: "serviceConfig option"

record config =
  cfg_accountIds :: "string list option"
  cfg_accountId :: "string option"
  applicationServices :: "applicationServices option"
  slackWebhook :: "string option"
  alertsEnabled :: "bool option"
  thresholdZones :: jsnum
  thresholdRequests :: jsnum
  thresholdBandwidth :: jsnum
  thresholdDnsQueries :: jsnum

text \<open>
  The part of an aggregated add-on object the cache check looks at:
  \<open>{ ..., timeSeries, perAccountData }\<close>, either of which an older snapshot may lack.
\<close>

record addonPayload =
  ap_timeSeries :: "rat ts_entry list option"
  ap_perAccountData :: "addonAccount list option"

text \<open>\<open>cachedData.data\<close>: the assembled response, each feature present or not.\<close>

record cachedPayload =
  cached_current :: "(rat, conf_triple) current_totals option"
  cached_botManagement :: "addonPayload option"
  cached_apiShield :: "addonPayload option"
  cached_pageShield :: "addonPayload option"
  cached_advancedRateLimiting :: "addonPayload option"

text \<open>\<open>cachedData\<close>: \<open>{ timestamp, data }\<close>.\<close>

record snapshot =
  snap_timestamp :: int
  snap_data :: "cachedPayload option"

text \<open>A zone as the zones endpoint lists it.\<close>

datatype name_field = NoName | NameString string | NameOther

text \<open>
  \<open>zone_account_id\<close> is \<open>zone.account.id\<close> when \<open>zone.account\<close> is truthy.
  \<open>plan_name\<close> is \<open>zone.plan?.name\<close>: missing or null, a string, or any other value
  (on which \<open>.toLowerCase()\<close> is not a function).
\<close>

record api_zone =
  zone_id :: string
  zone_name :: string
  zone_account_id :: "string option"
  plan_legacy_id :: "string option"
  plan_name :: name_field

text \<open>\<open>{ version, cachedAt, data }\<close> under a \<open>current-month:\<close> key.\<close>

record currentMonthCache =
  cm_version :: jsnum
  cm_cachedAt :: "int option"
  cm_data :: AccountMetrics

datatype kv_value =
    KvConfig config
  | KvSnapshot snapshot
  | KvCurrentMonth currentMonthCache
  | KvZones "api_zone list"
  | KvText string

record kv_entry =
  kv_value :: kv_value
  expirationTtl :: "nat option"

type_synonym kv_store = "string \<rightharpoonup> kv_entry"

record env =
  CONFIG_KV :: kv_store
  CLOUDFLARE_API_TOKEN :: "string option"

text \<open>
  \<open>CONFIG_KV.get(key, 'json')\<close> for each family of keys. The families have different
  prefixes, and the worker is the only writer, so a key holds a value of its family.
\<close>

definition kv_get_config :: "kv_store \<Rightarrow> string \<Rightarrow> config option" where
  "kv_get_config kv key =
     (case kv key of
        Some e \<Rightarrow> (case kv_value e of KvConfig c \<Rightarrow> Some c | _ \<Rightarrow> None)
      | None \<Rightarrow> None)"

definition kv_get_snapshot :: "kv_store \<Rightarrow> string \<Rightarrow> snapshot option" where
  "kv_get_snapshot kv key =
     (case kv key of
        Some e \<Rightarrow> (case kv_value e of KvSnapshot s \<Rightarrow> Some s | _ \<Rightarrow> None)
      | None \<Rightarrow> None)"

definition kv_get_currentMonth :: "kv_store \<Rightarrow> string \<Rightarrow> currentMonthCache option" where
  "kv_get_currentMonth kv key =
     (case kv key of
        Some e \<Rightarrow> (case kv_value e of KvCurrentMonth c \<Rightarrow> Some c | _ \<Rightarrow> None)
      | None \<Rightarrow> None)"

definition kv_get_zones :: "kv_store \<Rightarrow> string \<Rightarrow> api_zone list option" where
  "kv_get_zones kv key =
     (case kv key of
        Some e \<Rightarrow> (case kv_value e of KvZones zs \<Rightarrow> Some zs | _ \<Rightarrow> None)
      | None \<Rightarrow> None)"

definition kv_put :: "kv_store \<Rightarrow> string \<Rightarrow> kv_value \<Rightarrow> nat option \<Rightarrow> kv_store" where
  "kv_put kv key v ttl = kv(key \<mapsto> \<lparr> kv_value = v, expirationTtl = ttl \<rparr>)"

definition truthy_string :: "string option \<Rightarrow> bool" where
  \<comment> \<open>JS truthiness of a string: \<open>undefined\<close> and \<open>''\<close> are falsy.\<close>
  "truthy_string s = (case s of None \<Rightarrow> False | Some x \<Rightarrow> x \<noteq> [])"

fun join :: "string \<Rightarrow> string list \<Rightarrow> string" where
  "join sep [] = []"
| "join sep [x] = x"
| "join sep (x # y # ys) = x @ sep @ join sep (y # ys)"

section \<open>Progressive response builder: cache check\<close>

record request_body =
  body_phase :: jsnum
  body_accountIds :: "string list option"
  body_accountId :: "string option"

definition is_space :: "char \<Rightarrow> bool" where
  \<comment> \<open>The ASCII characters \<open>String.prototype.trim\<close> removes.\<close>
  "is_space c = (c = CHR '' '' \<or> c = CHR 0x09 \<or> c = CHR 0x0A \<or> c = CHR 0x0B \<or> c = CHR 0x0C \<or> c = CHR 0x0D)"

definition trim :: "string \<Rightarrow> string" where
  "trim s = rev (dropWhile is_space (rev (dropWhile is_space s)))"

definition parseAccountIds :: "request_body \<Rightarrow> string list" where
  "parseAccountIds body =
     (case body_accountIds body of
        Some ids \<Rightarrow>
          if length ids > 0 then filter (\<lambda>i. i \<noteq> [] \<and> trim i \<noteq> []) ids
          else if truthy_string (body_accountId body) then [the (body_accountId body)] else []
      | None \<Rightarrow> if truthy_string (body_accountId body) then [the (body_accountId body)] else [])"

definition serviceEnabled :: "config \<Rightarrow> (applicationServices \<Rightarrow> serviceConfig option) \<Rightarrow> bool" where
  \<comment> \<open>\<open>config?.applicationServices?.X?.enabled\<close> as a condition.\<close>
  "serviceEnabled cfg sel =
     (case applicationServices cfg of
        None \<Rightarrow> False
      | Some svc \<Rightarrow> (case sel svc of None \<Rightarrow> False | Some sc \<Rightarrow> enabled sc = Some True))"

definition checkAddon :: "bool \<Rightarrow> addonPayload option \<Rightarrow> bool \<Rightarrow> bool" where
  \<comment> \<open>One \<open>if (enabled) { if (!data) ... else if (!data.timeSeries) ... else if (!data.perAccountData) ... }\<close>
      block, as an update of the flag \<open>cacheIsComplete\<close>.\<close>
  "checkAddon isEnabled payload flag =
     (if isEnabled then
        (case payload of
           None \<Rightarrow> False
         | Some p \<Rightarrow>
             if ap_timeSeries p = None then False
             else if ap_perAccountData p = None then False
             else flag)
      else flag)"

definition cacheIsComplete :: "config option \<Rightarrow> cachedPayload \<Rightarrow> bool" where
  "cacheIsComplete configData d =
     (case configData of
        None \<Rightarrow> True
      | Some cfg \<Rightarrow>
          let c0 = True;
              c1 = (if serviceEnabled cfg core \<and> cached_current d = None then False else c0);
              c2 = checkAddon (serviceEnabled cfg botManagement) (cached_botManagement d) c1;
              c3 = checkAddon (serviceEnabled cfg apiShield) (cached_apiShield d) c2;
              c4 = checkAddon (serviceEnabled cfg pageShield) (cached_pageShield d) c3;
              c5 = checkAddon (serviceEnabled cfg advancedRateLimiting) (cached_advancedRateLimiting d) c4
          in c5)"

datatype progressive_response =
    BadRequest string
  | Cached cachedPayload int
  | Fresh nat

text \<open>
  \<open>BadRequest\<close> is a status-400 error response; \<open>Cached d age\<close> is
  \<open>{ ...cachedData.data, phase: 'cached', cacheAge }\<close>; \<open>Fresh n\<close> stands for the
  response of the phase-\<open>n\<close> computation that follows a cache miss, whose content (or
  failure) is not part of this model.
\<close>

definition freshPhase :: "jsnum \<Rightarrow> progressive_response" where
  "freshPhase p =
     (let phase = js_or p 1
      in if phase = 1 then Fresh 1 else if phase = 2 then Fresh 2 else Fresh 3)"

definition getMetricsProgressive :: "env \<Rightarrow> int \<Rightarrow> request_body \<Rightarrow> progressive_response" where
  "getMetricsProgressive e now body =
     (let accountIds = parseAccountIds body
      in if \<not> truthy_string (CLOUDFLARE_API_TOKEN e) then BadRequest ''API token not configured''
         else if length accountIds = 0 then BadRequest ''Account IDs not configured''
         else
           let cacheKey = ''pre-warmed:'' @ join '','' accountIds
           in case kv_get_snapshot (CONFIG_KV e) cacheKey of
                None \<Rightarrow> freshPhase (body_phase body)
              | Some cachedData \<Rightarrow>
                  (case snap_data cachedData of
                     None \<Rightarrow> freshPhase (body_phase body)
                   | Some d \<Rightarrow>
                       if cacheIsComplete (kv_get_config (CONFIG_KV e) ''config:default'') d
                       then Cached d (now - snap_timestamp cachedData)
                       else freshPhase (body_phase body)))"

definition addonComplete :: "addonPayload option \<Rightarrow> bool" where
  \<comment> \<open>The add-on's data, its timeSeries and its perAccountData are all present.\<close>
  "addonComplete payload =
     (case payload of None \<Rightarrow> False | Some p \<Rightarrow> ap_timeSeries p \<noteq> None \<and> ap_perAccountData p \<noteq> None)"

definition coreEnabled :: "config option \<Rightarrow> bool" where
  \<comment> \<open>Whether core is enabled, as the builders of the response and of the snapshot decide
      it: \<open>config?.applicationServices?.core?.enabled !== false\<close>, with \<open>config = {}\<close>
      when none is stored (enabled unless switched off).\<close>
  "coreEnabled configData =
     (case configData of
        None \<Rightarrow> True
      | Some cfg \<Rightarrow>
          (case applicationServices cfg of
             None \<Rightarrow> True
           | Some svc \<Rightarrow> (case core svc of None \<Rightarrow> True | Some sc \<Rightarrow> enabled sc \<noteq> Some False)))"

definition addonEnabled :: "config option \<Rightarrow> (applicationServices \<Rightarrow> serviceConfig option) \<Rightarrow> bool" where
  \<comment> \<open>Whether an add-on is enabled, as the same builders decide it:
      \<open>config?.applicationServices?.X?.enabled\<close> is truthy.\<close>
  "addonEnabled configData sel = (case configData of None \<Rightarrow> False | Some cfg \<Rightarrow> serviceEnabled cfg sel)"

definition snapshotComplete :: "config option \<Rightarrow> cachedPayload \<Rightarrow> bool" where
  \<comment> \<open>Completeness with respect to the current configuration, as the specification words
      it: data present for every feature that is enabled.\<close>
  "snapshotComplete configData d =
     ((coreEnabled configData \<longrightarrow> cached_current d \<noteq> None) \<and>
      (addonEnabled configData botManagement \<longrightarrow> addonComplete (cached_botManagement d)) \<and>
      (addonEnabled configData apiShield \<longrightarrow> addonComplete (cached_apiShield d)) \<and>
      (addonEnabled configData pageShield \<longrightarrow> addonComplete (cached_pageShield d)) \<and>
      (addonEnabled configData advancedRateLimiting \<longrightarrow> addonComplete (cached_advancedRateLimiting d)))"

definition coreFlagTruthy :: "config option \<Rightarrow> bool" where
  \<comment> \<open>The test the cache check applies to core:
      \<open>config?.applicationServices?.core?.enabled\<close> is truthy.\<close>
  "coreFlagTruthy configData = (case configData of None \<Rightarrow> False | Some cfg \<Rightarrow> serviceEnabled cfg core)"

definition coreFlagSet :: "config option \<Rightarrow> bool" where
  \<comment> \<open>The stored configuration says whether core is enabled (the settings form always
      writes the flag).\<close>
  "coreFlagSet configData =
     (case configData of
        None \<Rightarrow> False
      | Some cfg \<Rightarrow>
          (case applicationServices cfg of
             None \<Rightarrow> False
           | Some svc \<Rightarrow> (case core svc of None \<Rightarrow> False | Some sc \<Rightarrow> enabled sc \<noteq> None)))"

section \<open>Pre-warming\<close>

definition configuredAccountIds :: "config \<Rightarrow> string list" where
  \<comment> \<open>\<open>config.accountIds || (config.accountId ? [config.accountId] : [])\<close>\<close>
  "configuredAccountIds cfg =
     (case cfg_accountIds cfg of
        Some ids \<Rightarrow> ids
      | None \<Rightarrow> if truthy_string (cfg_accountId cfg) then [the (cfg_accountId cfg)] else [])"

definition preWarmCache :: "env \<Rightarrow> int \<Rightarrow> (error + cachedPayload) \<Rightarrow> env" where
  \<comment> \<open>\<open>assembled\<close> is the outcome of fetching and aggregating every enabled feature
      (\<open>Inl\<close> when that throws; the \<open>catch\<close> then only logs).\<close>
  "preWarmCache e now assembled =
     (case kv_get_config (CONFIG_KV e) ''config:default'' of
        None \<Rightarrow> e
      | Some cfg \<Rightarrow>
          let accountIds = configuredAccountIds cfg
          in if \<not> truthy_string (CLOUDFLARE_API_TOKEN e) then e
             else if length accountIds = 0 then e
             else
               (case assembled of
                  Inl err \<Rightarrow> e
                | Inr d \<Rightarrow>
                    let cacheKey = ''pre-warmed:'' @ join '','' accountIds;
                        cacheData = \<lparr> snap_timestamp = now, snap_data = Some d \<rparr>
                    in e\<lparr> CONFIG_KV := kv_put (CONFIG_KV e) cacheKey (KvSnapshot cacheData) (Some (6 * 60 * 60)) \<rparr>))"

text \<open>Fixtures for the cache check: a configuration with Bot Management switched on, and
  snapshots with and without Bot Management data.\<close>

definition configBotEnabled :: "string list \<Rightarrow> config" where
  "configBotEnabled ids =
     \<lparr> cfg_accountIds = Some ids, cfg_accountId = None,
       applicationServices =
         Some \<lparr> core = Some \<lparr> enabled = Some True, threshold = None \<rparr>,
                botManagement = Some \<lparr> enabled = Some True, threshold = Some 1000 \<rparr>,
                apiShield = None, pageShield = None, advancedRateLimiting = None \<rparr>,
       slackWebhook = None, alertsEnabled = None,
       thresholdZones = None, thresholdRequests = None, thresholdBandwidth = None,
       thresholdDnsQueries = None \<rparr>"

definition payloadCoreOnly :: cachedPayload where
  "payloadCoreOnly =
     \<lparr> cached_current =
         Some \<lparr> requests = 10, bytes = 20, dnsQueries = 30,
                confidence = \<lparr> requests = None, bytes = None, dnsQueries = None \<rparr> \<rparr>,
       cached_botManagement = None, cached_apiShield = None, cached_pageShield = None,
       cached_advancedRateLimiting = None \<rparr>"

definition payloadWithBot :: cachedPayload where
  "payloadWithBot =
     payloadCoreOnly\<lparr> cached_botManagement :=
       Some \<lparr> ap_timeSeries = Some [], ap_perAccountData = Some [] \<rparr> \<rparr>"

definition envWithSnapshot :: "string list \<Rightarrow> string \<Rightarrow> cachedPayload \<Rightarrow> env" where
  "envWithSnapshot ids key d =
     \<lparr> CONFIG_KV =
         [''config:default'' \<mapsto> \<lparr> kv_value = KvConfig (configBotEnabled ids), expirationTtl = None \<rparr>,
          key \<mapsto> \<lparr> kv_value = KvSnapshot \<lparr> snap_timestamp = 1000, snap_data = Some d \<rparr>,
                    expirationTtl = Some 21600 \<rparr>],
       CLOUDFLARE_API_TOKEN = Some ''token'' \<rparr>"

definition requestFor :: "string list \<Rightarrow> request_body" where
  "requestFor ids = \<lparr> body_phase = Some 3, body_accountIds = Some ids, body_accountId = None \<rparr>"

definition envConfigOnly :: "string list \<Rightarrow> env" where
  "envConfigOnly ids =
     \<lparr> CONFIG_KV =
         [''config:default'' \<mapsto> \<lparr> kv_value = KvConfig (configBotEnabled ids), expirationTtl = None \<rparr>],
       CLOUDFLARE_API_TOKEN = Some ''token'' \<rparr>"

text \<open>
  Fixtures: a configuration saved before the per-service section existed (no
  \<open>applicationServices\<close>, thresholds at the top level), and the data the pre-warm job
  assembles when every account fetch has failed (\<open>{ zonesCount, zones }\<close> only).
\<close>

definition configLegacy :: config where
  "configLegacy =
     \<lparr> cfg_accountIds = Some [''acct1''], cfg_accountId = None, applicationServices = None,
       slackWebhook = None, alertsEnabled = None,
       thresholdZones = Some 10, thresholdRequests = Some 1000000, thresholdBandwidth = None,
       thresholdDnsQueries = None \<rparr>"

definition payloadWithoutCore :: cachedPayload where
  "payloadWithoutCore =
     \<lparr> cached_current = None, cached_botManagement = None, cached_apiShield = None,
       cached_pageShield = None, cached_advancedRateLimiting = None \<rparr>"

definition envLegacy :: env where
  "envLegacy =
     \<lparr> CONFIG_KV = [''config:default'' \<mapsto> \<lparr> kv_value = KvConfig configLegacy, expirationTtl = None \<rparr>],
       CLOUDFLARE_API_TOKEN = Some ''token'' \<rparr>"

section \<open>Zone discovery and the per-account fetcher\<close>

text \<open>
  The outcome of one \<open>fetch\<close> followed by \<open>response.json()\<close>: the request itself
  fails (\<open>fetch\<close> rejects), or a response arrives with its \<open>ok\<close> flag and a body that
  either parses as JSON or does not (\<open>response.json()\<close> then throws).
\<close>

datatype 'a http_result = FetchFailed | HttpResponse bool "'a option"

text \<open>
  The parsed JSON body of the zones endpoint, as far as the function reads it. The body
  is \<open>null\<close> (reading \<open>data.result\<close> then throws) or any other value; its
  \<open>result\<close> is falsy or missing, an array, or a truthy value that is not an array (on
  which \<open>.filter\<close> is not a function). An element of the array is \<open>null\<close> (reading
  \<open>zone.account\<close> then throws) or any other value, read as a zone.
\<close>

datatype json_zone = NullElement | ZoneObject api_zone

datatype result_field = NoResult | ResultArray "json_zone list" | ResultOther

datatype zones_body = JsonNull | JsonBody result_field

definition zoneObjects :: "json_zone list \<Rightarrow> api_zone list" where
  "zoneObjects zs = List.map_filter (\<lambda>z. case z of NullElement \<Rightarrow> None | ZoneObject z' \<Rightarrow> Some z') zs"

definition toLowerCase :: "string \<Rightarrow> string" where
  "toLowerCase s =
     map (\<lambda>c. let n = (of_char c :: nat) in if 65 \<le> n \<and> n \<le> 90 then char_of (n + 32) else c) s"

fun startsWith :: "string \<Rightarrow> string \<Rightarrow> bool" where
  "startsWith s [] = True"
| "startsWith [] (t # ts) = False"
| "startsWith (c # cs) (t # ts) = (c = t \<and> startsWith cs ts)"

fun str_includes :: "string \<Rightarrow> string \<Rightarrow> bool" where
  "str_includes [] t = (t = [])"
| "str_includes (c # cs) t = (startsWith (c # cs) t \<or> str_includes cs t)"

definition isEnterprise :: "api_zone \<Rightarrow> bool" where
  \<comment> \<open>\<open>zone.plan?.legacy_id === 'enterprise' || zone.plan?.name?.toLowerCase().includes('enterprise')\<close>
      where it does not throw.\<close>
  "isEnterprise z =
     (plan_legacy_id z = Some ''enterprise'' \<or>
      (case plan_name z of NameString n \<Rightarrow> str_includes (toLowerCase n) ''enterprise'' | _ \<Rightarrow> False))"

definition planNameThrows :: "api_zone \<Rightarrow> bool" where
  \<comment> \<open>The same test throws a TypeError: the first disjunct is false and the name is neither
      nullish nor a string.\<close>
  "planNameThrows z = (plan_legacy_id z \<noteq> Some ''enterprise'' \<and> plan_name z = NameOther)"

definition fetchEnterpriseZones :: "zones_body http_result \<Rightarrow> string \<Rightarrow> error + api_zone list" where
  \<comment> \<open>In \<open>if (!response.ok || !data.result) return []\<close> the body is read only when the
      response is OK. The two \<open>filter\<close> calls run one after the other, so a \<open>null\<close>
      element anywhere throws before any plan is looked at.\<close>
  "fetchEnterpriseZones response acctId =
     (case response of
        FetchFailed \<Rightarrow> Inl NetworkError
      | HttpResponse ok body \<Rightarrow>
          (case body of
             None \<Rightarrow> Inl SyntaxError
           | Some data \<Rightarrow>
               if \<not> ok then Inr []
               else
                 (case data of
                    JsonNull \<Rightarrow> Inl TypeError
                  | JsonBody NoResult \<Rightarrow> Inr []
                  | JsonBody ResultOther \<Rightarrow> Inl TypeError
                  | JsonBody (ResultArray zs) \<Rightarrow>
                      if list_ex (\<lambda>z. z = NullElement) zs then Inl TypeError
                      else
                        let accountZones = filter (\<lambda>z. zone_account_id z = Some acctId) (zoneObjects zs)
                        in if list_ex planNameThrows accountZones then Inl TypeError
                           else Inr (filter isEnterprise accountZones))))"

text \<open>External requests the fetcher issues, in order.\<close>

datatype ext_call = AccountLookup string | ZoneDiscovery string | AnalyticsQuery string

definition isAnalyticsQuery :: "ext_call \<Rightarrow> bool" where
  "isAnalyticsQuery c = (case c of AnalyticsQuery q \<Rightarrow> True | _ \<Rightarrow> False)"

record upstream =
  accountNameResponse :: "string option"
  zonesResponse :: "zones_body http_result"

definition emptyMetrics :: "string \<Rightarrow> string option \<Rightarrow> AccountMetrics" where
  \<comment> \<open>The object returned when the account has no enterprise zones.\<close>
  "emptyMetrics aid name =
     \<lparr> current = \<lparr> requests = Some 0, bytes = Some 0, dnsQueries = Some 0, confidence = None \<rparr>,
       previous = \<lparr> requests = Some 0, bytes = Some 0, dnsQueries = Some 0 \<rparr>,
       timeSeries = Some [],
       zoneBreakdown = \<lparr> primary = Some 0, secondary = Some 0, zones = Some [] \<rparr>,
       previousMonthZoneBreakdown = \<lparr> primary = Some 0, secondary = Some 0, zones = Some [] \<rparr>,
       accountId = aid, accountName = name \<rparr>"

definition recentCurrentMonth :: "currentMonthCache option \<Rightarrow> int \<Rightarrow> AccountMetrics option" where
  \<comment> \<open>The current-month cache check: present, \<open>cachedAt\<close> truthy, version 2 and younger
      than 10 minutes.\<close>
  "recentCurrentMonth cached now =
     (case cached of
        None \<Rightarrow> None
      | Some c \<Rightarrow>
          (case cm_cachedAt c of
             None \<Rightarrow> None
           | Some cachedAt \<Rightarrow>
               if cachedAt \<noteq> 0 \<and> cm_version c = Some 2
               then (let cacheAge = now - cachedAt
                     in if cacheAge < 10 * 60 * 1000 then Some (cm_data c) else None)
               else None))"

type_synonym fetch_outcome = "(error + AccountMetrics) \<times> env \<times> ext_call list"

definition afterZoneDiscovery ::
  "(api_zone list \<Rightarrow> env \<Rightarrow> fetch_outcome) \<Rightarrow> string \<Rightarrow> string option \<Rightarrow>
   api_zone list \<Rightarrow> env \<Rightarrow> ext_call list \<Rightarrow> fetch_outcome" where
  \<comment> \<open>From \<open>if (!enterpriseZones || enterpriseZones.length === 0)\<close> on. \<open>rest\<close> is the
      remainder of the function (analytics queries, DNS, previous month, history, caching),
      given the zones and the store.\<close>
  "afterZoneDiscovery rest acctId acctName enterpriseZones e calls =
     (if length enterpriseZones = 0 then (Inr (emptyMetrics acctId acctName), e, calls)
      else (case rest enterpriseZones e of (r, e', calls') \<Rightarrow> (r, e', calls @ calls')))"

definition fetchAccountMetrics ::
  "upstream \<Rightarrow> (api_zone list \<Rightarrow> env \<Rightarrow> fetch_outcome) \<Rightarrow> env \<Rightarrow> int \<Rightarrow> string \<Rightarrow> string \<Rightarrow>
   fetch_outcome" where
  \<comment> \<open>\<open>now\<close> is \<open>Date.now()\<close> and \<open>dateHour\<close> the \<open>YYYY-MM-DD-HH\<close> rendering of the
      same instant.\<close>
  "fetchAccountMetrics up rest e now dateHour acctId =
     (let acctName = accountNameResponse up;
          calls = [AccountLookup acctId];
          currentMonthCacheKey = ''current-month:'' @ acctId @ '':'' @ dateHour
      in case recentCurrentMonth (kv_get_currentMonth (CONFIG_KV e) currentMonthCacheKey) now of
           Some cached \<Rightarrow> (Inr cached, e, calls)
         | None \<Rightarrow>
             let zonesCacheKey = ''zones:'' @ acctId
             in case kv_get_zones (CONFIG_KV e) zonesCacheKey of
                  Some enterpriseZones \<Rightarrow>
                    afterZoneDiscovery rest acctId acctName enterpriseZones e calls
                | None \<Rightarrow>
                    (case fetchEnterpriseZones (zonesResponse up) acctId of
                       Inl err \<Rightarrow> (Inl err, e, calls @ [ZoneDiscovery acctId])
                     | Inr enterpriseZones \<Rightarrow>
                         let e' = (if length enterpriseZones > 0
                                   then e\<lparr> CONFIG_KV := kv_put (CONFIG_KV e) zonesCacheKey
                                                             (KvZones enterpriseZones) (Some 3600) \<rparr>
                                   else e)
                         in afterZoneDiscovery rest acctId acctName enterpriseZones e'
                              (calls @ [ZoneDiscovery acctId])))"

text \<open>Fixtures: a store without cache entries, a zone list with one non-enterprise zone,
  and a continuation that would query analytics.\<close>

definition envEmpty :: env where
  "envEmpty = \<lparr> CONFIG_KV = Map.empty, CLOUDFLARE_API_TOKEN = Some ''token'' \<rparr>"

definition freeZone :: api_zone where
  "freeZone = \<lparr> zone_id = ''z1'', zone_name = ''example.com'', zone_account_id = Some ''acct1'',
                 plan_legacy_id = Some ''free'', plan_name = NameString ''Free Website'' \<rparr>"

definition queryingRest :: "api_zone list \<Rightarrow> env \<Rightarrow> fetch_outcome" where
  "queryingRest zs e = (Inl (Failure ''No zone data found''), e, [AnalyticsQuery ''GetEnterpriseZoneStats''])"

section \<open>Threshold evaluator and notifier\<close>

datatype metricKey =
  Zones | Requests | Bandwidth | DnsQueries | BotManagement | ApiShield | PageShield | AdvancedRateLimiting

text \<open>\<open>body.metrics\<close> and \<open>body.thresholds\<close>: objects read at the eight metric keys.\<close>

type_synonym metric_values = "metricKey \<Rightarrow> jsnum"

definition metricName :: "metricKey \<Rightarrow> string" where
  "metricName k =
     (case k of
        Zones \<Rightarrow> ''Enterprise Zones''
      | Requests \<Rightarrow> ''HTTP Requests''
      | Bandwidth \<Rightarrow> ''Data Transfer''
      | DnsQueries \<Rightarrow> ''DNS Queries''
      | BotManagement \<Rightarrow> ''Bot Management (Likely Human)''
      | ApiShield \<Rightarrow> ''API Shield (HTTP Requests)''
      | PageShield \<Rightarrow> ''Page Shield (HTTP Requests)''
      | AdvancedRateLimiting \<Rightarrow> ''Advanced Rate Limiting (HTTP Requests)'')"

definition metricKeyString :: "metricKey \<Rightarrow> string" where
  "metricKeyString k =
     (case k of
        Zones \<Rightarrow> ''zones''
      | Requests \<Rightarrow> ''requests''
      | Bandwidth \<Rightarrow> ''bandwidth''
      | DnsQueries \<Rightarrow> ''dnsQueries''
      | BotManagement \<Rightarrow> ''botManagement''
      | ApiShield \<Rightarrow> ''apiShield''
      | PageShield \<Rightarrow> ''pageShield''
      | AdvancedRateLimiting \<Rightarrow> ''advancedRateLimiting'')"

text \<open>
  An alert record. The code stores \<open>current\<close>, \<open>threshold\<close> and \<open>percentage\<close> as
  display strings (\<open>toLocaleString\<close>, \<open>toFixed(1)\<close>); the model keeps the numbers they
  render. Alerts of the scheduled check carry no \<open>metricKey\<close>.
\<close>

record alert =
  metric :: string
  alert_key :: "metricKey option"
  alert_current :: rat
  alert_threshold :: rat
  percentage :: rat

text \<open>
  The evaluator's result together with a log of every division it performs, as
  (metric, dividend, divisor).
\<close>

record evaluation =
  alerts :: "alert list"
  divisions :: "(metricKey \<times> rat \<times> rat) list"

definition checkMetric :: "metric_values \<Rightarrow> metric_values \<Rightarrow> metricKey \<Rightarrow> evaluation \<Rightarrow> evaluation" where
  \<comment> \<open>One \<open>if (metrics.X && thresholds.X) { const percentage = ...; if (percentage >= 90) alerts.push(...) }\<close> block.\<close>
  "checkMetric metrics thresholds k ev =
     (if truthy (metrics k) \<and> truthy (thresholds k) then
        let cur = the (metrics k);
            thr = the (thresholds k);
            pct = (cur / thr) * 100;
            ev' = ev\<lparr> divisions := divisions ev @ [(k, cur, thr)] \<rparr>
        in if pct \<ge> 90
           then ev'\<lparr> alerts := alerts ev' @
                  [\<lparr> metric = metricName k, alert_key = Some k, alert_current = cur,
                     alert_threshold = thr, percentage = pct \<rparr>] \<rparr>
           else ev'
      else ev)"

definition trackedMetrics :: "metricKey list" where
  "trackedMetrics =
     [Zones, Requests, Bandwidth, DnsQueries, BotManagement, ApiShield, PageShield, AdvancedRateLimiting]"

definition thresholdAlerts :: "metric_values \<Rightarrow> metric_values \<Rightarrow> evaluation" where
  "thresholdAlerts metrics thresholds =
     fold (checkMetric metrics thresholds) trackedMetrics \<lparr> alerts = [], divisions = [] \<rparr>"

text \<open>Arguments of \<open>sendSlackAlert\<close> as the two call sites pass them.\<close>

datatype jsval = JString string | JAlerts "alert list" | JStrings "string list"

datatype post_result = PostFailed | PostStatus bool

datatype slack_message = TestMessage | AlertMessage jsval

record slack_post =
  post_url :: string
  post_message :: slack_message

definition sendSlackAlert :: "jsval \<Rightarrow> jsval \<Rightarrow> jsval \<Rightarrow> post_result \<Rightarrow> error + slack_post" where
  \<comment> \<open>\<open>sendSlackAlert(alerts, webhookUrl, dashboardUrl)\<close>. \<open>alerts.map\<close> is a TypeError on
      a string; \<open>fetch\<close> needs a URL string; a non-OK response is thrown as an Error.\<close>
  "sendSlackAlert alertsArg webhookUrl dashboardUrl post =
     (case alertsArg of
        JString s \<Rightarrow> Inl TypeError
      | _ \<Rightarrow>
          (case webhookUrl of
             JString url \<Rightarrow>
               (case post of
                  PostFailed \<Rightarrow> Inl NetworkError
                | PostStatus ok \<Rightarrow>
                    if ok then Inr \<lparr> post_url = url, post_message = AlertMessage alertsArg \<rparr>
                    else Inl (Failure ''Failed to send Slack message''))
           | _ \<Rightarrow> Inl TypeError))"

record check_body =
  metrics :: metric_values
  thresholds :: metric_values
  body_slackWebhook :: "string option"
  check_accountIds :: "string list option"
  check_accountId :: "string option"
  forceTest :: bool

datatype check_response =
    TestNotification bool
  | ThresholdReport "alert list" bool "bool option" "nat option"

text \<open>
  \<open>TestNotification success\<close> answers a forced test; \<open>ThresholdReport alerts
  alertsTriggered slackSent skipped\<close> is the JSON answer of the evaluation, the last two
  fields being absent when no notification was attempted.
\<close>

definition alertKey :: "string \<Rightarrow> alert \<Rightarrow> string \<Rightarrow> string" where
  \<comment> \<open>\<open>`alert-sent:${accountsKey}:${alert.metricKey}:${currentMonth}`\<close>\<close>
  "alertKey accountsKey a currentMonth =
     ''alert-sent:'' @ accountsKey @ '':'' @
       (case alert_key a of None \<Rightarrow> ''undefined'' | Some k \<Rightarrow> metricKeyString k) @ '':'' @ currentMonth"

definition kv_truthy :: "kv_store \<Rightarrow> string \<Rightarrow> bool" where
  \<comment> \<open>\<open>await env.CONFIG_KV.get(key)\<close> as a condition: a stored non-empty text.\<close>
  "kv_truthy kv key =
     (case kv key of
        None \<Rightarrow> False
      | Some e \<Rightarrow> (case kv_value e of KvText s \<Rightarrow> s \<noteq> [] | _ \<Rightarrow> True))"

definition markIfNew :: "string \<Rightarrow> string \<Rightarrow> alert \<Rightarrow> kv_store \<times> alert list \<Rightarrow> kv_store \<times> alert list" where
  \<comment> \<open>The body of \<open>for (const alert of alerts)\<close>.\<close>
  "markIfNew accountsKey currentMonth a st =
     (case st of (kv, newAlerts) \<Rightarrow>
        let key = alertKey accountsKey a currentMonth;
            alreadySent = kv_truthy kv key
        in if \<not> alreadySent
           then (kv_put kv key (KvText ''true'') (Some 3888000), newAlerts @ [a])
           else (kv, newAlerts))"

definition requestAccounts :: "check_body \<Rightarrow> string list" where
  \<comment> \<open>\<open>accountIds || (accountId ? [accountId] : [])\<close>\<close>
  "requestAccounts body =
     (case check_accountIds body of
        Some ids \<Rightarrow> ids
      | None \<Rightarrow> if truthy_string (check_accountId body) then [the (check_accountId body)] else [])"

definition checkThresholds ::
  "env \<Rightarrow> string \<Rightarrow> post_result \<Rightarrow> check_body \<Rightarrow> check_response \<times> env \<times> slack_post list" where
  \<comment> \<open>\<open>currentMonth\<close> is the \<open>YYYY-MM\<close> rendering of the time of the call; \<open>post\<close> is what
      the webhook does with a POST. The result is the response, the store afterwards and
      the messages delivered to the webhook. The dashboard URL only fills a button of the
      message and is kept constant.\<close>
  "checkThresholds e currentMonth post body =
     (let accounts = requestAccounts body
      in if forceTest body \<and> truthy_string (body_slackWebhook body) then
           (case post of
              PostFailed \<Rightarrow> (TestNotification False, e, [])
            | PostStatus ok \<Rightarrow>
                (TestNotification True, e,
                 [\<lparr> post_url = the (body_slackWebhook body), post_message = TestMessage \<rparr>]))
         else
           let found = alerts (thresholdAlerts (metrics body) (thresholds body))
           in if length found > 0 \<and> truthy_string (body_slackWebhook body) then
                let accountsKey = join ''-'' (sort accounts);
                    st = fold (markIfNew accountsKey currentMonth) found (CONFIG_KV e, []);
                    e' = e\<lparr> CONFIG_KV := fst st \<rparr>;
                    newAlerts = snd st
                in if length newAlerts > 0 then
                     (case sendSlackAlert (JAlerts newAlerts) (JString (the (body_slackWebhook body)))
                             (JString ''dashboard'') post of
                        Inr sent \<Rightarrow>
                          (ThresholdReport newAlerts True (Some True)
                             (Some (length found - length newAlerts)), e', [sent])
                      | Inl err \<Rightarrow> (ThresholdReport found True (Some False) None, e', []))
                   else (ThresholdReport [] True (Some False) (Some (length found)), e', [])
              else (ThresholdReport found (length found > 0) None None, e, []))"

section \<open>Scheduled threshold check\<close>

definition scheduledCheck :: "string \<Rightarrow> jsnum \<Rightarrow> rat \<Rightarrow> alert list \<Rightarrow> alert list" where
  \<comment> \<open>One \<open>if (thresholds.X && current > thresholds.X) alerts.push(...)\<close> block.\<close>
  "scheduledCheck name thr cur found =
     (if truthy thr \<and> cur > the thr
      then found @ [\<lparr> metric = name, alert_key = None, alert_current = cur,
                       alert_threshold = the thr, percentage = (cur / the thr) * 100 \<rparr>]
      else found)"

definition scheduledAlerts :: "config \<Rightarrow> rat totals \<Rightarrow> nat \<Rightarrow> alert list" where
  "scheduledAlerts cfg cur totalZones =
     (let a0 = [];
          a1 = scheduledCheck ''Enterprise Zones'' (thresholdZones cfg) (of_nat totalZones) a0;
          a2 = scheduledCheck ''HTTP Requests'' (thresholdRequests cfg) (requests cur) a1;
          a3 = scheduledCheck ''Data Transfer'' (thresholdBandwidth cfg) (bytes cur) a2;
          a4 = scheduledCheck ''DNS Queries'' (thresholdDnsQueries cfg) (dnsQueries cur) a3
      in a4)"

definition runScheduledThresholdCheck ::
  "env \<Rightarrow> string \<Rightarrow> post_result \<Rightarrow> (rat totals \<times> nat) option \<Rightarrow> env \<times> slack_post list" where
  \<comment> \<open>\<open>fetched\<close> is the aggregated current totals and the zone count, \<open>None\<close> when no
      account could be fetched; \<open>monthKey\<close> is the \<open>YYYY-MM\<close> rendering of the time of
      the run. Every exception is caught and logged by the enclosing \<open>try\<close>.\<close>
  "runScheduledThresholdCheck e monthKey post fetched =
     (case kv_get_config (CONFIG_KV e) ''config:default'' of
        None \<Rightarrow> (e, [])
      | Some cfg \<Rightarrow>
          if \<not> (alertsEnabled cfg = Some True) \<or> \<not> truthy_string (slackWebhook cfg) then (e, [])
          else
            let accountIds = configuredAccountIds cfg
            in if \<not> truthy_string (CLOUDFLARE_API_TOKEN e) then (e, [])
               else if length accountIds = 0 then (e, [])
               else
                 (case fetched of
                    None \<Rightarrow> (e, [])
                  | Some (cur, totalZones) \<Rightarrow>
                      let found = scheduledAlerts cfg cur totalZones
                      in if length found = 0 then (e, [])
                         else
                           let key = ''alerts-sent:'' @ hd accountIds @ '':'' @ monthKey;
                               alreadySent = kv_truthy (CONFIG_KV e) key
                           in if alreadySent then (e, [])
                              else
                                (case sendSlackAlert (JString (the (slackWebhook cfg))) (JAlerts found)
                                        (JStrings accountIds) post of
                                   Inl err \<Rightarrow> (e, [])
                                 | Inr sent \<Rightarrow>
                                     (e\<lparr> CONFIG_KV := kv_put (CONFIG_KV e) key (KvText ''{sentAt, alerts}'')
                                                          (Some (32 * 24 * 60 * 60)) \<rparr>,
                                      [sent]))))"

text \<open>The evaluator, stated declaratively: which metrics are evaluated, which breach, and
  the alert a breach produces.\<close>

definition evaluated :: "metric_values \<Rightarrow> metric_values \<Rightarrow> metricKey \<Rightarrow> bool" where
  "evaluated m t k = (truthy (m k) \<and> truthy (t k))"

definition breached :: "metric_values \<Rightarrow> metric_values \<Rightarrow> metricKey \<Rightarrow> bool" where
  "breached m t k = (evaluated m t k \<and> the (m k) / the (t k) * 100 \<ge> 90)"

definition alertFor :: "metric_values \<Rightarrow> metric_values \<Rightarrow> metricKey \<Rightarrow> alert" where
  "alertFor m t k =
     \<lparr> metric = metricName k, alert_key = Some k, alert_current = the (m k),
       alert_threshold = the (t k), percentage = the (m k) / the (t k) * 100 \<rparr>"

text \<open>Fixtures: a request body that reports one metric, and a stored configuration with
  alerts switched on, a webhook, and a request threshold of 100.\<close>

definition onlyMetric :: "metricKey \<Rightarrow> rat \<Rightarrow> metric_values" where
  "onlyMetric k v = (\<lambda>k'. if k' = k then Some v else None)"

definition checkBody :: "rat \<Rightarrow> rat \<Rightarrow> check_body" where
  "checkBody cur thr =
     \<lparr> metrics = onlyMetric Requests cur, thresholds = onlyMetric Requests thr,
       body_slackWebhook = Some ''https://hooks.example/T'', check_accountIds = Some [''acct1''],
       check_accountId = None, forceTest = False \<rparr>"

definition configAlerts :: config where
  "configAlerts =
     \<lparr> cfg_accountIds = Some [''acct1''], cfg_accountId = None, applicationServices = None,
       slackWebhook = Some ''https://hooks.example/T'', alertsEnabled = Some True,
       thresholdZones = None, thresholdRequests = Some 100, thresholdBandwidth = None,
       thresholdDnsQueries = None \<rparr>"

definition envAlerts :: env where
  "envAlerts =
     \<lparr> CONFIG_KV = [''config:default'' \<mapsto> \<lparr> kv_value = KvConfig configAlerts, expirationTtl = None \<rparr>],
       CLOUDFLARE_API_TOKEN = Some ''token'' \<rparr>"

definition currentRequests :: "rat \<Rightarrow> rat totals" where
  "currentRequests r = \<lparr> requests = r, bytes = 0, dnsQueries = 0 \<rparr>"

chapter \<open>Verified properties\<close>

section \<open>Confidence derivation\<close>


lemma Math_round_tenths_bounds:
  assumes "0 \<le> x" "x \<le> 100"
  shows "0 \<le> Math_round (x * 10) / 10 \<and> Math_round (x * 10) / 10 \<le> 100"
proof -
  have "(0::int) \<le> \<lfloor>x * 10 + 1 / 2\<rfloor>" using assms by (simp add: zero_le_floor)
  moreover have "\<lfloor>x * 10 + 1 / 2\<rfloor> \<le> (1000::int)"
  proof -
    have "x * 10 + 1 / 2 < 1001" using assms by simp
    then have "\<lfloor>x * 10 + 1 / 2\<rfloor> < (1001::int)" by (simp add: floor_less_iff)
    then show ?thesis by simp
  qed
  ultimately show ?thesis
    unfolding Math_round_def
    by (simp add: divide_le_eq le_divide_eq)
qed

lemma calculateConfidencePercentage_None_iff:
  "calculateConfidencePercentage c = None \<longleftrightarrow>
     (case c of None \<Rightarrow> True | Some conf \<Rightarrow> \<not> truthy (estimate conf))"
  by (simp add: calculateConfidencePercentage_def Let_def split: option.splits)

lemma calculateConfidencePercentage_Some:
  assumes "truthy (estimate conf)"
  shows "calculateConfidencePercentage (Some conf) =
     Some \<lparr> estimate = estimate conf, lower = lower conf, upper = upper conf,
            sampleSize = sampleSize conf,
            percent = ConfidencePercent (the (estimate conf)) (js_or (lower conf) (the (estimate conf)))
                        (js_or (upper conf) (the (estimate conf))) \<rparr>"
  using assms unfolding calculateConfidencePercentage_def ConfidencePercent_def Let_def
  by simp

lemma ConfidencePercent_bounds: "0 \<le> ConfidencePercent e l u \<and> ConfidencePercent e l u \<le> 100"
  unfolding ConfidencePercent_def by (rule Math_round_tenths_bounds) simp_all

lemma ConfidencePercent_exact: "e \<noteq> 0 \<Longrightarrow> ConfidencePercent e e e = 100"
  unfolding ConfidencePercent_def Math_round_def by (simp add: floor_eq_iff)

text \<open>
  What does hold of the calculator, for every interval: no value exactly when the interval
  or its estimate is missing or zero; otherwise a percentage in \<open>[0,100]\<close>, equal to the
  documented formula as long as both bounds are non-zero numbers, and equal to 100 when
  both bounds equal the estimate.
\<close>

lemma calculateConfidencePercentage_sound:
  assumes "calculateConfidencePercentage (Some conf) = Some r"
  shows "0 \<le> percent r \<and> percent r \<le> 100"
    and "truthy (lower conf) \<Longrightarrow> truthy (upper conf) \<Longrightarrow>
           percent r = ConfidencePercent (the (estimate conf)) (the (lower conf)) (the (upper conf))"
    and "lower conf = estimate conf \<Longrightarrow> upper conf = estimate conf \<Longrightarrow> percent r = 100"
proof -
  have t: "truthy (estimate conf)"
    using assms calculateConfidencePercentage_None_iff [of "Some conf"] by auto
  have r: "percent r = ConfidencePercent (the (estimate conf)) (js_or (lower conf) (the (estimate conf)))
                        (js_or (upper conf) (the (estimate conf)))"
    using assms calculateConfidencePercentage_Some [OF t] by auto
  show "0 \<le> percent r \<and> percent r \<le> 100"
    unfolding r by (rule ConfidencePercent_bounds)
  show "percent r = ConfidencePercent (the (estimate conf)) (the (lower conf)) (the (upper conf))"
    if "truthy (lower conf)" "truthy (upper conf)"
    using that unfolding r by (auto simp add: truthy_def js_or_def split: option.splits)
  show "percent r = 100" if "lower conf = estimate conf" "upper conf = estimate conf"
  proof -
    from t obtain e where e: "estimate conf = Some e" "e \<noteq> 0"
      by (auto simp add: truthy_def split: option.splits)
    show ?thesis
      unfolding r using that e by (simp add: js_or_def ConfidencePercent_exact)
  qed
qed

text \<open>
  C2. The documented derivation is \<open>100 * (1 - (upper-lower)/(2*estimate))\<close>, clamped and
  rounded. The calculator reads its bounds as \<open>confidence.lower || estimate\<close> and
  \<open>confidence.upper || estimate\<close>, so a lower bound of 0 is replaced by the estimate:
  for the interval \<open>{estimate: 100, lower: 0, upper: 200, sampleSize: 10}\<close> the
  calculator answers 50 where the formula gives 0.
\<close>

theorem calculateConfidencePercentage_zero_lower_bound:
  "map_option percent
     (calculateConfidencePercentage
        (Some \<lparr> estimate = Some 100, lower = Some 0, upper = Some 200, sampleSize = Some 10 \<rparr>))
     = Some 50
   \<and> ConfidencePercent 100 0 200 = 0"
  by code_simp

section \<open>Cross-account confidence\<close>











section \<open>Time-series merge\<close>

lemma fold_mergeAccountTimeSeries:
  "fold mergeAccountTimeSeries accs m = fold mergeTimeSeriesEntry (allEntries accs) m"
proof (induction accs arbitrary: m)
  case Nil
  then show ?case by (simp add: allEntries_def)
next
  case (Cons a accs)
  let ?ts = "case timeSeries a of None \<Rightarrow> [] | Some ts \<Rightarrow> ts"
  have all: "allEntries (a # accs) = ?ts @ allEntries accs"
    by (simp add: allEntries_def)
  have step: "mergeAccountTimeSeries a m = fold mergeTimeSeriesEntry ?ts m"
    by (simp add: mergeAccountTimeSeries_def split: option.splits)
  show ?case
    by (simp only: fold_Cons_rev fold.simps comp_apply step all fold_append Cons.IH)
qed

lemma mergeTimeSeriesEntry_update:
  "mergeTimeSeriesEntry entry m = AList.update (month entry) (mergedValue entry (map_of m (month entry))) m"
  by (simp add: mergeTimeSeriesEntry_def mergedValue_def split: option.splits)

lemma list_all_update:
  "list_all P m \<Longrightarrow> P (k, v) \<Longrightarrow> list_all P (AList.update k v m)"
  by (induction m) auto

lemma ts_inv_step:
  assumes "ts_inv m"
  shows "ts_inv (mergeTimeSeriesEntry entry m)"
proof -
  have d: "distinct (map fst (mergeTimeSeriesEntry entry m))"
    using assms by (simp add: mergeTimeSeriesEntry_update ts_inv_def distinct_update)
  have mo: "month (mergedValue entry (map_of m (month entry))) = month entry"
  proof (cases "map_of m (month entry)")
    case None
    then show ?thesis by (simp add: mergedValue_def)
  next
    case (Some v)
    then have "(month entry, v) \<in> set m" by (rule map_of_SomeD)
    then have "month v = month entry"
      using assms by (auto simp add: ts_inv_def list_all_iff)
    then show ?thesis using Some by (simp add: mergedValue_def)
  qed
  show ?thesis
    unfolding ts_inv_def
    using d assms mo
    by (simp add: mergeTimeSeriesEntry_update ts_inv_def list_all_update)
qed

lemma ts_inv_fold: "ts_inv m \<Longrightarrow> ts_inv (fold mergeTimeSeriesEntry es m)"
  by (induction es arbitrary: m) (simp_all add: ts_inv_step)

lemma map_of_step:
  "map_of (mergeTimeSeriesEntry entry m) k =
     (if k = month entry then Some (mergedValue entry (map_of m k)) else map_of m k)"
  by (simp add: mergeTimeSeriesEntry_update update_conv')

lemma monthTotal_Nil: "monthTotal f k [] = 0"
  by (simp add: monthTotal_def)

lemma monthTotal_Cons:
  "monthTotal f k (e # es) = (if month e = k then js_or (f e) 0 + monthTotal f k es else monthTotal f k es)"
  by (simp add: monthTotal_def)

lemma map_of_fold_Some:
  "map_of m k = Some v \<Longrightarrow> map_of (fold mergeTimeSeriesEntry es m) k = Some (addMonth k es v)"
proof (induction es arbitrary: m v)
  case Nil
  then show ?case by (simp add: addMonth_def monthTotal_Nil)
next
  case (Cons e es)
  show ?case
  proof (cases "month e = k")
    case True
    have "map_of (mergeTimeSeriesEntry e m) k = Some (mergedValue e (Some v))"
      using True Cons.prems by (simp add: map_of_step)
    from Cons.IH [OF this] show ?thesis
      using True by (simp add: addMonth_def monthTotal_Cons mergedValue_def add.assoc)
  next
    case False
    have "map_of (mergeTimeSeriesEntry e m) k = Some v"
      using False Cons.prems by (auto simp add: map_of_step)
    from Cons.IH [OF this] show ?thesis
      using False by (simp add: addMonth_def monthTotal_Cons)
  qed
qed

lemma expectedMonth_Cons:
  "expectedMonth k (e # es) =
     (if month e = k
      then [\<lparr> requests = js_or (requests e) 0 + monthTotal requests k es,
              bytes = js_or (bytes e) 0 + monthTotal bytes k es,
              dnsQueries = js_or (dnsQueries e) 0 + monthTotal dnsQueries k es,
              month = k, timestamp = timestamp e \<rparr>]
      else expectedMonth k es)"
  by (simp add: expectedMonth_def monthTotal_Cons split: option.splits)

lemma map_of_fold_None:
  "map_of m k = None \<Longrightarrow>
     map_of (fold mergeTimeSeriesEntry es m) k = (case expectedMonth k es of [] \<Rightarrow> None | v # _ \<Rightarrow> Some v)"
proof (induction es arbitrary: m)
  case Nil
  then show ?case by (simp add: expectedMonth_def)
next
  case (Cons e es)
  show ?case
  proof (cases "month e = k")
    case True
    have "map_of (mergeTimeSeriesEntry e m) k = Some (mergedValue e None)"
      using True Cons.prems by (simp add: map_of_step)
    from map_of_fold_Some [OF this] show ?thesis
      using True by (simp add: expectedMonth_Cons addMonth_def mergedValue_def)
  next
    case False
    have "map_of (mergeTimeSeriesEntry e m) k = None"
      using False Cons.prems by (auto simp add: map_of_step)
    from Cons.IH [OF this] show ?thesis
      using False by (simp add: expectedMonth_Cons)
  qed
qed

lemma filter_values_by_key:
  "ts_inv m \<Longrightarrow> filter (\<lambda>v. month v = k) (map snd m) = (case map_of m k of None \<Rightarrow> [] | Some v \<Rightarrow> [v])"
proof (induction m)
  case Nil
  then show ?case by simp
next
  case (Cons p m)
  obtain k' v' where p: "p = (k', v')" by (cases p)
  from Cons.prems have inv: "ts_inv m" and mv: "month v' = k'" and nk: "k' \<notin> fst ` set m"
    by (auto simp add: ts_inv_def p)
  show ?case
  proof (cases "k' = k")
    case True
    then have "map_of m k = None" using nk by (simp add: map_of_eq_None_iff)
    then have "filter (\<lambda>v. month v = k) (map snd m) = []"
      using Cons.IH [OF inv] by simp
    then show ?thesis using True mv by (simp add: p)
  next
    case False
    then show ?thesis using Cons.IH [OF inv] mv by (simp add: p)
  qed
qed

lemma expectedMonth_cases: "expectedMonth k es = [] \<or> (\<exists>v. expectedMonth k es = [v])"
  by (simp add: expectedMonth_def split: option.splits)

lemma mergedTimeSeries_by_month:
  "filter (\<lambda>v. month v = k) (mergedTimeSeries accs) = expectedMonth k (allEntries accs)"
proof -
  let ?m = "fold mergeTimeSeriesEntry (allEntries accs) []"
  have inv: "ts_inv ?m" by (rule ts_inv_fold) (simp add: ts_inv_def)
  have mo: "map_of ?m k = (case expectedMonth k (allEntries accs) of [] \<Rightarrow> None | v # _ \<Rightarrow> Some v)"
    by (rule map_of_fold_None) simp
  have "filter (\<lambda>v. month v = k) (map snd ?m) = expectedMonth k (allEntries accs)"
    using expectedMonth_cases [of k "allEntries accs"]
    by (auto simp add: filter_values_by_key [OF inv] mo)
  moreover have "sort_key timestamp (expectedMonth k (allEntries accs)) = expectedMonth k (allEntries accs)"
    using expectedMonth_cases [of k "allEntries accs"] by auto
  ultimately show ?thesis
    by (simp add: mergedTimeSeries_def fold_mergeAccountTimeSeries filter_sort)
qed

lemma mergedTimeSeries_sorted: "sorted (map timestamp (mergedTimeSeries accs))"
  by (simp add: mergedTimeSeries_def)

lemma distinct_map_sort_key: "distinct (map g (sort_key f xs)) = distinct (map g xs)"
  by (simp add: distinct_map)

lemma mergedTimeSeries_distinct: "distinct (map month (mergedTimeSeries accs))"
proof -
  let ?m = "fold mergeTimeSeriesEntry (allEntries accs) []"
  have inv: "ts_inv ?m" by (rule ts_inv_fold) (simp add: ts_inv_def)
  then have eq: "map (month \<circ> snd) ?m = map fst ?m"
    by (auto simp add: ts_inv_def list_all_iff)
  have "distinct (map fst ?m)" using inv by (simp add: ts_inv_def)
  then have "distinct (map month (map snd ?m))" by (simp add: eq)
  then show ?thesis
    unfolding mergedTimeSeries_def fold_mergeAccountTimeSeries distinct_map_sort_key .
qed

lemma find_filter_case:
  "find P xs = (case filter P xs of [] \<Rightarrow> None | x # _ \<Rightarrow> Some x)"
  by (induction xs) simp_all

lemma expectedMonth_single:
  assumes "filter (\<lambda>e. month e = k) es = [e]"
  shows "expectedMonth k es =
     [\<lparr> requests = js_or (requests e) 0, bytes = js_or (bytes e) 0,
        dnsQueries = js_or (dnsQueries e) 0, month = month e, timestamp = timestamp e \<rparr>]"
proof -
  have "e \<in> set (filter (\<lambda>e. month e = k) es)" using assms by simp
  then have k: "month e = k" by simp
  have f: "find (\<lambda>e. month e = k) es = Some e"
    by (simp add: find_filter_case assms)
  show ?thesis
    by (simp add: expectedMonth_def f monthTotal_def assms k)
qed

text \<open>
  C3. The merged series is sorted ascending by timestamp and has one entry per month.
  For every month key \<open>k\<close> its entry carries the field-by-field sums of requests, bytes
  and dnsQueries over all entries of all accounts with that key (a missing number
  counting as 0); a month that occurs in a single entry keeps that entry's values; and
  merging \<open>[{2025-01, 100}]\<close> with \<open>[{2025-01, 50}, {2025-02, 10}]\<close> yields
  \<open>[{2025-01, 150}, {2025-02, 10}]\<close>.
\<close>

theorem mergedTimeSeries_correct:
  "sorted (map timestamp (mergedTimeSeries accs))
   \<and> distinct (map month (mergedTimeSeries accs))
   \<and> filter (\<lambda>v. month v = k) (mergedTimeSeries accs) = expectedMonth k (allEntries accs)
   \<and> (filter (\<lambda>e. month e = k) (allEntries accs) = [e] \<longrightarrow>
        filter (\<lambda>v. month v = k) (mergedTimeSeries accs) =
          [\<lparr> requests = js_or (requests e) 0, bytes = js_or (bytes e) 0,
             dnsQueries = js_or (dnsQueries e) 0, month = month e, timestamp = timestamp e \<rparr>])
   \<and> mergedTimeSeries
        [accountWithSeries ''A'' [seriesEntry ''2025-01'' 1735689600000 100],
         accountWithSeries ''B'' [seriesEntry ''2025-01'' 1735689600000 50,
                                  seriesEntry ''2025-02'' 1738368000000 10]]
      = [\<lparr> requests = 150, bytes = 0, dnsQueries = 0, month = ''2025-01'', timestamp = 1735689600000 \<rparr>,
         \<lparr> requests = 10, bytes = 0, dnsQueries = 0, month = ''2025-02'', timestamp = 1738368000000 \<rparr>]"
proof -
  have ex: "mergedTimeSeries
        [accountWithSeries ''A'' [seriesEntry ''2025-01'' 1735689600000 100],
         accountWithSeries ''B'' [seriesEntry ''2025-01'' 1735689600000 50,
                                  seriesEntry ''2025-02'' 1738368000000 10]]
      = [\<lparr> requests = 150, bytes = 0, dnsQueries = 0, month = ''2025-01'', timestamp = 1735689600000 \<rparr>,
         \<lparr> requests = 10, bytes = 0, dnsQueries = 0, month = ''2025-02'', timestamp = 1738368000000 \<rparr>]"
    by code_simp
  show ?thesis
    using mergedTimeSeries_sorted [of accs] mergedTimeSeries_distinct [of accs]
      mergedTimeSeries_by_month [of k accs] expectedMonth_single [of k "allEntries accs" e] ex
    by simp
qed

theorem mergedTimeSeries_witness:
  "filter (\<lambda>e. month e = ''2025-02'')
     (allEntries [accountWithSeries ''A'' [seriesEntry ''2025-01'' 1735689600000 100],
                  accountWithSeries ''B'' [seriesEntry ''2025-01'' 1735689600000 50,
                                           seriesEntry ''2025-02'' 1738368000000 10]])
     = [seriesEntry ''2025-02'' 1738368000000 10]
   \<and> filter (\<lambda>v. month v = ''2025-02'')
       (mergedTimeSeries [accountWithSeries ''A'' [seriesEntry ''2025-01'' 1735689600000 100],
                          accountWithSeries ''B'' [seriesEntry ''2025-01'' 1735689600000 50,
                                                   seriesEntry ''2025-02'' 1738368000000 10]])
     = [\<lparr> requests = 10, bytes = 0, dnsQueries = 0, month = ''2025-02'', timestamp = 1738368000000 \<rparr>]"
proof -
  have h: "filter (\<lambda>e. month e = ''2025-02'')
     (allEntries [accountWithSeries ''A'' [seriesEntry ''2025-01'' 1735689600000 100],
                  accountWithSeries ''B'' [seriesEntry ''2025-01'' 1735689600000 50,
                                           seriesEntry ''2025-02'' 1738368000000 10]])
     = [seriesEntry ''2025-02'' 1738368000000 10]"
    by (simp add: allEntries_def accountWithSeries_def seriesEntry_def)
  show ?thesis
    using h mergedTimeSeries_correct
      [of "[accountWithSeries ''A'' [seriesEntry ''2025-01'' 1735689600000 100],
            accountWithSeries ''B'' [seriesEntry ''2025-01'' 1735689600000 50,
                                     seriesEntry ''2025-02'' 1738368000000 10]]"
          "''2025-02''" "seriesEntry ''2025-02'' 1738368000000 10"]
    by (simp add: seriesEntry_def js_or_def)
qed

section \<open>Cache completeness gate\<close>

lemma checkAddon_eq: "checkAddon en p flag = (flag \<and> (en \<longrightarrow> addonComplete p))"
  by (auto simp add: checkAddon_def addonComplete_def split: option.splits)

text \<open>What the sequence of flag updates checks: for core the truthiness of the flag, for
  each add-on its enabledness.\<close>

lemma cacheIsComplete_checks:
  "cacheIsComplete cfg d =
     ((coreFlagTruthy cfg \<longrightarrow> cached_current d \<noteq> None) \<and>
      (addonEnabled cfg botManagement \<longrightarrow> addonComplete (cached_botManagement d)) \<and>
      (addonEnabled cfg apiShield \<longrightarrow> addonComplete (cached_apiShield d)) \<and>
      (addonEnabled cfg pageShield \<longrightarrow> addonComplete (cached_pageShield d)) \<and>
      (addonEnabled cfg advancedRateLimiting \<longrightarrow> addonComplete (cached_advancedRateLimiting d)))"
  by (cases cfg)
     (auto simp add: cacheIsComplete_def coreFlagTruthy_def addonEnabled_def checkAddon_eq Let_def)

lemma coreFlagTruthy_enabled: "coreFlagTruthy cfg \<Longrightarrow> coreEnabled cfg"
  by (auto simp add: coreFlagTruthy_def coreEnabled_def serviceEnabled_def split: option.splits)

lemma coreFlagSet_enabled: "coreFlagSet cfg \<Longrightarrow> coreEnabled cfg = coreFlagTruthy cfg"
  by (auto simp add: coreFlagSet_def coreFlagTruthy_def coreEnabled_def serviceEnabled_def
      split: option.splits)

text \<open>A complete snapshot always passes the check; the check implies completeness for
  every add-on, and for core as well when the stored configuration carries the core flag.\<close>

lemma snapshotComplete_passes: "snapshotComplete cfg d \<Longrightarrow> cacheIsComplete cfg d"
  using coreFlagTruthy_enabled [of cfg]
  by (auto simp add: cacheIsComplete_checks snapshotComplete_def)

lemma cacheIsComplete_flag_set: "coreFlagSet cfg \<Longrightarrow> cacheIsComplete cfg d = snapshotComplete cfg d"
  by (simp add: cacheIsComplete_checks snapshotComplete_def coreFlagSet_enabled)

lemma getMetricsProgressive_Cached:
  assumes "getMetricsProgressive e now body = Cached d age"
  shows "cacheIsComplete (kv_get_config (CONFIG_KV e) ''config:default'') d"
proof -
  have fresh: "freshPhase p \<noteq> Cached d age" for p
    by (simp add: freshPhase_def Let_def)
  show ?thesis
    using assms
    by (auto simp add: getMetricsProgressive_def Let_def fresh
        split: option.splits if_splits)
qed

lemma getMetricsProgressive_found:
  assumes "truthy_string (CLOUDFLARE_API_TOKEN e)" and "parseAccountIds body \<noteq> []"
    and "kv_get_snapshot (CONFIG_KV e) (''pre-warmed:'' @ join '','' (parseAccountIds body)) = Some cachedData"
    and "snap_data cachedData = Some d"
  shows "getMetricsProgressive e now body =
        (if cacheIsComplete (kv_get_config (CONFIG_KV e) ''config:default'') d
         then Cached d (now - snap_timestamp cachedData)
         else freshPhase (body_phase body))"
  using assms
  by (simp add: getMetricsProgressive_def Let_def)

text \<open>
  With a stored configuration that carries the core flag, a snapshot is served with
  \<open>phase = 'cached'\<close> only when it is complete, and a snapshot that is found is served
  exactly when it is complete; otherwise the request falls through to the fresh
  computation of the requested phase.
\<close>

lemma cache_gate_with_core_flag:
  assumes "coreFlagSet (kv_get_config (CONFIG_KV e) ''config:default'')"
  shows "getMetricsProgressive e now body = Cached d age \<Longrightarrow>
           snapshotComplete (kv_get_config (CONFIG_KV e) ''config:default'') d"
    and "truthy_string (CLOUDFLARE_API_TOKEN e) \<Longrightarrow> parseAccountIds body \<noteq> [] \<Longrightarrow>
         kv_get_snapshot (CONFIG_KV e) (''pre-warmed:'' @ join '','' (parseAccountIds body)) = Some cachedData \<Longrightarrow>
         snap_data cachedData = Some d \<Longrightarrow>
           getMetricsProgressive e now body =
             (if snapshotComplete (kv_get_config (CONFIG_KV e) ''config:default'') d
              then Cached d (now - snap_timestamp cachedData)
              else freshPhase (body_phase body))"
proof -
  show "snapshotComplete (kv_get_config (CONFIG_KV e) ''config:default'') d"
    if "getMetricsProgressive e now body = Cached d age"
    using getMetricsProgressive_Cached [OF that] cacheIsComplete_flag_set [OF assms, of d] by simp
  show "getMetricsProgressive e now body =
             (if snapshotComplete (kv_get_config (CONFIG_KV e) ''config:default'') d
              then Cached d (now - snap_timestamp cachedData)
              else freshPhase (body_phase body))"
    if "truthy_string (CLOUDFLARE_API_TOKEN e)" "parseAccountIds body \<noteq> []"
      "kv_get_snapshot (CONFIG_KV e) (''pre-warmed:'' @ join '','' (parseAccountIds body)) = Some cachedData"
      "snap_data cachedData = Some d"
    unfolding cacheIsComplete_flag_set [OF assms, symmetric]
    by (rule getMetricsProgressive_found [OF that])
qed

text \<open>
  With Bot Management switched on in the configuration, a snapshot without Bot Management
  data is a miss and a snapshot with it is served.
\<close>

lemma cache_gate_bot_management:
  "getMetricsProgressive (envWithSnapshot [''acct1''] ''pre-warmed:acct1'' payloadCoreOnly) 5000 (requestFor [''acct1'']) = Fresh 3"
  "getMetricsProgressive (envWithSnapshot [''acct1''] ''pre-warmed:acct1'' payloadWithBot) 5000 (requestFor [''acct1''])
       = Cached payloadWithBot 4000"
proof -
  have ids: "parseAccountIds (requestFor [''acct1'']) = [''acct1'']"
    by (simp add: parseAccountIds_def requestFor_def trim_def is_space_def)
  have cfg: "kv_get_config (CONFIG_KV (envWithSnapshot [''acct1''] ''pre-warmed:acct1'' d)) ''config:default''
               = Some (configBotEnabled [''acct1''])" for d
    by (simp add: kv_get_config_def envWithSnapshot_def)
  have snap: "kv_get_snapshot (CONFIG_KV (envWithSnapshot [''acct1''] ''pre-warmed:acct1'' d))
                 (''pre-warmed:'' @ join '','' (parseAccountIds (requestFor [''acct1''])))
               = Some \<lparr> snap_timestamp = 1000, snap_data = Some d \<rparr>" for d
    by (simp add: ids kv_get_snapshot_def envWithSnapshot_def)
  have tok: "truthy_string (CLOUDFLARE_API_TOKEN (envWithSnapshot [''acct1''] ''pre-warmed:acct1'' d))" for d
    by (simp add: truthy_string_def envWithSnapshot_def)
  have ne: "parseAccountIds (requestFor [''acct1'']) \<noteq> []" by (simp add: ids)
  have c1: "\<not> cacheIsComplete (Some (configBotEnabled [''acct1''])) payloadCoreOnly"
    by (simp add: cacheIsComplete_checks coreFlagTruthy_def addonEnabled_def serviceEnabled_def
        configBotEnabled_def payloadCoreOnly_def addonComplete_def)
  have c2: "cacheIsComplete (Some (configBotEnabled [''acct1''])) payloadWithBot"
    by (simp add: cacheIsComplete_checks coreFlagTruthy_def addonEnabled_def serviceEnabled_def
        configBotEnabled_def payloadCoreOnly_def payloadWithBot_def addonComplete_def)
  have ph: "freshPhase (body_phase (requestFor [''acct1''])) = Fresh 3"
    by (simp add: freshPhase_def requestFor_def js_or_def)
  show "getMetricsProgressive (envWithSnapshot [''acct1''] ''pre-warmed:acct1'' payloadCoreOnly) 5000 (requestFor [''acct1'']) = Fresh 3"
    by (simp add: getMetricsProgressive_found [OF tok ne snap] cfg c1 ph)
  show "getMetricsProgressive (envWithSnapshot [''acct1''] ''pre-warmed:acct1'' payloadWithBot) 5000 (requestFor [''acct1''])
       = Cached payloadWithBot 4000"
    by (simp add: getMetricsProgressive_found [OF tok ne snap] cfg c2)
qed

text \<open>
  C4. The cache check asks for core data only when the core flag of the configuration is
  truthy, while the builders of the response and of the snapshot take core as enabled
  unless the flag is \<open>false\<close>. With a stored configuration that has no
  \<open>applicationServices\<close> section, core is enabled; the snapshot the pre-warm job stores
  when every account fetch has failed carries no \<open>current\<close> and is not complete; the
  progressive request is nevertheless answered from it with \<open>phase = 'cached'\<close>.
\<close>

theorem cache_gate_serves_snapshot_without_core:
  "coreEnabled (kv_get_config (CONFIG_KV envLegacy) ''config:default'')
   \<and> cached_current payloadWithoutCore = None
   \<and> \<not> snapshotComplete (kv_get_config (CONFIG_KV envLegacy) ''config:default'') payloadWithoutCore
   \<and> getMetricsProgressive (preWarmCache envLegacy 1000 (Inr payloadWithoutCore)) 5000 (requestFor [''acct1''])
       = Cached payloadWithoutCore 4000"
proof -
  have cfg: "kv_get_config (CONFIG_KV envLegacy) ''config:default'' = Some configLegacy"
    by (simp add: envLegacy_def kv_get_config_def)
  have en: "coreEnabled (Some configLegacy)"
    by (simp add: coreEnabled_def configLegacy_def)
  have nc: "cached_current payloadWithoutCore = None"
    by (simp add: payloadWithoutCore_def)
  have pw: "preWarmCache envLegacy 1000 (Inr payloadWithoutCore) =
      envLegacy\<lparr> CONFIG_KV := kv_put (CONFIG_KV envLegacy) ''pre-warmed:acct1''
        (KvSnapshot \<lparr> snap_timestamp = 1000, snap_data = Some payloadWithoutCore \<rparr>) (Some 21600) \<rparr>"
    by (simp add: preWarmCache_def cfg configuredAccountIds_def configLegacy_def Let_def)
       (simp add: envLegacy_def truthy_string_def)
  have served: "getMetricsProgressive (preWarmCache envLegacy 1000 (Inr payloadWithoutCore)) 5000 (requestFor [''acct1''])
       = Cached payloadWithoutCore 4000"
    unfolding pw
    by (simp add: getMetricsProgressive_def Let_def parseAccountIds_def requestFor_def trim_def
        is_space_def envLegacy_def truthy_string_def kv_put_def kv_get_snapshot_def kv_get_config_def
        cacheIsComplete_checks coreFlagTruthy_def addonEnabled_def serviceEnabled_def configLegacy_def)
  show ?thesis
    using en nc served by (simp add: cfg snapshotComplete_def)
qed

theorem cache_gate_serves_snapshot_without_core_witness:
  "getMetricsProgressive (preWarmCache envLegacy 1000 (Inr payloadWithoutCore)) 5000 (requestFor [''acct1''])
     \<noteq> Fresh 3"
  using cache_gate_serves_snapshot_without_core by simp

section \<open>Pre-warmed snapshot key\<close>

lemma kv_get_snapshot_put:
  "kv_get_snapshot (kv_put kv k (KvSnapshot s) ttl) k = Some s"
  by (simp add: kv_get_snapshot_def kv_put_def)

text \<open>
  C8, as the code has it. The pre-warm job stores the snapshot under
  \<open>pre-warmed:\<close> followed by the configured account IDs joined by commas, in the
  order they are configured (no sorting), with a TTL of 6 hours (21600 seconds); the
  progressive request looks up the same join of the request's account IDs. So a request
  whose account-ID list equals the configured list finds the stored snapshot (and is
  served from it when the completeness check passes).
\<close>

theorem prewarm_snapshot_found_for_same_list:
  "kv_get_config (CONFIG_KV e) ''config:default'' = Some cfg
   \<and> truthy_string (CLOUDFLARE_API_TOKEN e) \<and> configuredAccountIds cfg \<noteq> [] \<longrightarrow>
     CONFIG_KV (preWarmCache e now (Inr d)) (''pre-warmed:'' @ join '','' (configuredAccountIds cfg))
       = Some \<lparr> kv_value = KvSnapshot \<lparr> snap_timestamp = now, snap_data = Some d \<rparr>,
                expirationTtl = Some 21600 \<rparr>
     \<and> (parseAccountIds body = configuredAccountIds cfg \<longrightarrow>
          getMetricsProgressive (preWarmCache e now (Inr d)) later body =
            (if cacheIsComplete (Some cfg) d then Cached d (later - now)
             else freshPhase (body_phase body)))"
proof (intro impI, elim conjE)
  assume cfg: "kv_get_config (CONFIG_KV e) ''config:default'' = Some cfg"
    and tok: "truthy_string (CLOUDFLARE_API_TOKEN e)"
    and ids: "configuredAccountIds cfg \<noteq> []"
  let ?key = "''pre-warmed:'' @ join '','' (configuredAccountIds cfg)"
  let ?snap = "\<lparr> snap_timestamp = now, snap_data = Some d \<rparr>"
  have pw: "preWarmCache e now (Inr d) =
      e\<lparr> CONFIG_KV := kv_put (CONFIG_KV e) ?key (KvSnapshot ?snap) (Some (6 * 60 * 60)) \<rparr>"
    using cfg tok ids by (simp add: preWarmCache_def Let_def)
  have stored: "CONFIG_KV (preWarmCache e now (Inr d)) ?key
       = Some \<lparr> kv_value = KvSnapshot ?snap, expirationTtl = Some 21600 \<rparr>"
    by (simp add: pw kv_put_def)
  have found: "getMetricsProgressive (preWarmCache e now (Inr d)) later body =
            (if cacheIsComplete (Some cfg) d then Cached d (later - now)
             else freshPhase (body_phase body))"
    if same: "parseAccountIds body = configuredAccountIds cfg"
  proof -
    have 1: "truthy_string (CLOUDFLARE_API_TOKEN (preWarmCache e now (Inr d)))"
      using tok by (simp add: pw)
    have 2: "kv_get_snapshot (CONFIG_KV (preWarmCache e now (Inr d)))
               (''pre-warmed:'' @ join '','' (parseAccountIds body)) = Some ?snap"
      by (simp add: same pw kv_get_snapshot_put)
    have 3: "kv_get_config (CONFIG_KV (preWarmCache e now (Inr d))) ''config:default'' = Some cfg"
      using cfg by (simp add: pw kv_get_config_def kv_put_def)
    have 4: "parseAccountIds body \<noteq> []" using same ids by simp
    have 5: "snap_data ?snap = Some d" by simp
    have g: "getMetricsProgressive (preWarmCache e now (Inr d)) later body =
        (if cacheIsComplete (kv_get_config (CONFIG_KV (preWarmCache e now (Inr d))) ''config:default'') d
         then Cached d (later - snap_timestamp ?snap)
         else freshPhase (body_phase body))"
      by (rule getMetricsProgressive_found [OF 1 4 2 5])
    show ?thesis
      unfolding g 3 by simp
  qed
  show "CONFIG_KV (preWarmCache e now (Inr d)) ?key
       = Some \<lparr> kv_value = KvSnapshot ?snap, expirationTtl = Some 21600 \<rparr>
     \<and> (parseAccountIds body = configuredAccountIds cfg \<longrightarrow>
          getMetricsProgressive (preWarmCache e now (Inr d)) later body =
            (if cacheIsComplete (Some cfg) d then Cached d (later - now)
             else freshPhase (body_phase body)))"
    using stored found by blast
qed

theorem prewarm_snapshot_witness:
  "kv_get_config (CONFIG_KV (envConfigOnly [''b'', ''a''])) ''config:default'' = Some (configBotEnabled [''b'', ''a''])
   \<and> truthy_string (CLOUDFLARE_API_TOKEN (envConfigOnly [''b'', ''a'']))
   \<and> configuredAccountIds (configBotEnabled [''b'', ''a'']) \<noteq> []
   \<and> parseAccountIds (requestFor [''b'', ''a'']) = configuredAccountIds (configBotEnabled [''b'', ''a''])
   \<and> CONFIG_KV (preWarmCache (envConfigOnly [''b'', ''a'']) 1000 (Inr payloadWithBot)) ''pre-warmed:b,a''
       = Some \<lparr> kv_value = KvSnapshot \<lparr> snap_timestamp = 1000, snap_data = Some payloadWithBot \<rparr>,
                expirationTtl = Some 21600 \<rparr>
   \<and> getMetricsProgressive (preWarmCache (envConfigOnly [''b'', ''a'']) 1000 (Inr payloadWithBot)) 5000
        (requestFor [''b'', ''a'']) = Cached payloadWithBot 4000"
proof -
  have 1: "kv_get_config (CONFIG_KV (envConfigOnly [''b'', ''a''])) ''config:default'' = Some (configBotEnabled [''b'', ''a''])"
    by (simp add: envConfigOnly_def kv_get_config_def)
  have 2: "truthy_string (CLOUDFLARE_API_TOKEN (envConfigOnly [''b'', ''a'']))"
    by (simp add: envConfigOnly_def truthy_string_def)
  have 3: "configuredAccountIds (configBotEnabled [''b'', ''a'']) = [''b'', ''a'']"
    by (simp add: configuredAccountIds_def configBotEnabled_def)
  have 4: "parseAccountIds (requestFor [''b'', ''a'']) = [''b'', ''a'']"
    by (simp add: parseAccountIds_def requestFor_def trim_def is_space_def)
  have 5: "cacheIsComplete (Some (configBotEnabled [''b'', ''a''])) payloadWithBot"
    by (simp add: cacheIsComplete_checks coreFlagTruthy_def addonEnabled_def serviceEnabled_def
        configBotEnabled_def payloadCoreOnly_def
        payloadWithBot_def addonComplete_def)
  show ?thesis
    using prewarm_snapshot_found_for_same_list
      [of "envConfigOnly [''b'', ''a'']" "configBotEnabled [''b'', ''a'']" 1000 payloadWithBot
          "requestFor [''b'', ''a'']" 5000]
    by (simp add: 1 2 3 4 5)
qed

text \<open>
  The key is not the sorted account set: a snapshot stored for the configured list
  \<open>[b, a]\<close> lies under \<open>pre-warmed:b,a\<close>, and a request for the same accounts listed
  as \<open>[a, b]\<close> looks under \<open>pre-warmed:a,b\<close>, finds nothing and computes afresh.
\<close>

theorem prewarm_key_not_sorted:
  "set [''b'', ''a''] = set [''a'', ''b'']
   \<and> CONFIG_KV (preWarmCache (envConfigOnly [''b'', ''a'']) 1000 (Inr payloadWithBot)) ''pre-warmed:a,b'' = None
   \<and> CONFIG_KV (preWarmCache (envConfigOnly [''b'', ''a'']) 1000 (Inr payloadWithBot)) ''pre-warmed:b,a'' \<noteq> None
   \<and> getMetricsProgressive (preWarmCache (envConfigOnly [''b'', ''a'']) 1000 (Inr payloadWithBot)) 5000
        (requestFor [''a'', ''b'']) = Fresh 3"
  by (simp add: preWarmCache_def envConfigOnly_def kv_get_config_def configuredAccountIds_def
      configBotEnabled_def truthy_string_def kv_put_def Let_def getMetricsProgressive_def
      parseAccountIds_def requestFor_def trim_def is_space_def kv_get_snapshot_def freshPhase_def js_or_def
      insert_commute)

section \<open>Accounts without eligible zones\<close>

lemma afterZoneDiscovery_Nil:
  "afterZoneDiscovery rest acctId acctName [] e calls = (Inr (emptyMetrics acctId acctName), e, calls)"
  by (simp add: afterZoneDiscovery_def)

lemma fetchAccountMetrics_no_zones:
  assumes nc: "recentCurrentMonth (kv_get_currentMonth (CONFIG_KV e) (''current-month:'' @ acctId @ '':'' @ dateHour)) now = None"
    and z: "kv_get_zones (CONFIG_KV e) (''zones:'' @ acctId) = Some []
       \<or> (kv_get_zones (CONFIG_KV e) (''zones:'' @ acctId) = None
           \<and> fetchEnterpriseZones (zonesResponse up) acctId = Inr [])"
  shows "\<exists>calls. fetchAccountMetrics up rest e now dateHour acctId
                = (Inr (emptyMetrics acctId (accountNameResponse up)), e, calls)
              \<and> list_all (\<lambda>c. \<not> isAnalyticsQuery c) calls"
  using z
proof
  assume "kv_get_zones (CONFIG_KV e) (''zones:'' @ acctId) = Some []"
  then have "fetchAccountMetrics up rest e now dateHour acctId
              = (Inr (emptyMetrics acctId (accountNameResponse up)), e, [AccountLookup acctId])"
    using nc by (simp add: fetchAccountMetrics_def Let_def afterZoneDiscovery_Nil)
  then show ?thesis by (simp add: isAnalyticsQuery_def)
next
  assume "kv_get_zones (CONFIG_KV e) (''zones:'' @ acctId) = None
         \<and> fetchEnterpriseZones (zonesResponse up) acctId = Inr []"
  then have "fetchAccountMetrics up rest e now dateHour acctId
              = (Inr (emptyMetrics acctId (accountNameResponse up)), e,
                 [AccountLookup acctId, ZoneDiscovery acctId])"
    using nc by (simp add: fetchAccountMetrics_def Let_def afterZoneDiscovery_Nil)
  then show ?thesis by (simp add: isAnalyticsQuery_def)
qed

lemma fetchEnterpriseZones_freeZone:
  "fetchEnterpriseZones (HttpResponse True (Some (JsonBody (ResultArray [ZoneObject freeZone])))) ''acct1'' = Inr []"
  by (simp add: fetchEnterpriseZones_def freeZone_def isEnterprise_def planNameThrows_def
      zoneObjects_def toLowerCase_def Let_def)

lemma envEmpty_lookups:
  "recentCurrentMonth (kv_get_currentMonth (CONFIG_KV envEmpty) k) now = None"
  "kv_get_zones (CONFIG_KV envEmpty) k = None"
  by (simp_all add: envEmpty_def kv_get_currentMonth_def recentCurrentMonth_def kv_get_zones_def)

text \<open>
  C7. When no recent current-month cache entry short-cuts the fetch and the account's
  enterprise zone list is empty (a cached empty list, or zone discovery returning none),
  the per-account fetcher returns, without an error, the metrics object with all-zero
  current and previous totals, an empty time series and empty zone lists; the store is
  left as it was and the only external requests are the account-name lookup and, when
  the list was not cached, zone discovery: no analytics query is issued, whatever the
  rest of the function would do.
\<close>

theorem zero_zone_account_returns_empty_metrics:
  "recentCurrentMonth (kv_get_currentMonth (CONFIG_KV e) (''current-month:'' @ acctId @ '':'' @ dateHour)) now = None
   \<and> (kv_get_zones (CONFIG_KV e) (''zones:'' @ acctId) = Some []
       \<or> (kv_get_zones (CONFIG_KV e) (''zones:'' @ acctId) = None
           \<and> fetchEnterpriseZones (zonesResponse up) acctId = Inr []))
   \<longrightarrow>
     (\<exists>calls. fetchAccountMetrics up rest e now dateHour acctId
                = (Inr (emptyMetrics acctId (accountNameResponse up)), e, calls)
              \<and> list_all (\<lambda>c. \<not> isAnalyticsQuery c) calls)
     \<and> current (emptyMetrics acctId (accountNameResponse up))
          = \<lparr> requests = Some 0, bytes = Some 0, dnsQueries = Some 0, confidence = None \<rparr>
     \<and> previous (emptyMetrics acctId (accountNameResponse up))
          = \<lparr> requests = Some 0, bytes = Some 0, dnsQueries = Some 0 \<rparr>
     \<and> timeSeries (emptyMetrics acctId (accountNameResponse up)) = Some []
     \<and> zones (zoneBreakdown (emptyMetrics acctId (accountNameResponse up))) = Some []
     \<and> zones (previousMonthZoneBreakdown (emptyMetrics acctId (accountNameResponse up))) = Some []"
  using fetchAccountMetrics_no_zones [of e acctId dateHour now up rest]
  by (simp add: emptyMetrics_def)

theorem zero_zone_account_witness:
  "recentCurrentMonth (kv_get_currentMonth (CONFIG_KV envEmpty) (''current-month:'' @ ''acct1'' @ '':'' @ ''2025-01-01-00'')) 1000 = None
   \<and> kv_get_zones (CONFIG_KV envEmpty) (''zones:'' @ ''acct1'') = None
   \<and> fetchEnterpriseZones (HttpResponse True (Some (JsonBody (ResultArray [ZoneObject freeZone])))) ''acct1'' = Inr []
   \<and> (\<exists>calls. fetchAccountMetrics
                 \<lparr> accountNameResponse = Some ''Acme'',
                   zonesResponse = HttpResponse True (Some (JsonBody (ResultArray [ZoneObject freeZone]))) \<rparr>
                 queryingRest envEmpty 1000 ''2025-01-01-00'' ''acct1''
               = (Inr (emptyMetrics ''acct1'' (Some ''Acme'')), envEmpty, calls)
             \<and> list_all (\<lambda>c. \<not> isAnalyticsQuery c) calls)"
  using zero_zone_account_returns_empty_metrics
          [of envEmpty "''acct1''" "''2025-01-01-00''" 1000
              "\<lparr> accountNameResponse = Some ''Acme'',
                 zonesResponse = HttpResponse True (Some (JsonBody (ResultArray [ZoneObject freeZone]))) \<rparr>"
              queryingRest]
  by (simp add: envEmpty_lookups fetchEnterpriseZones_freeZone)

section \<open>Failed zone lookups\<close>

text \<open>
  C10, as the code has it. \<open>fetchEnterpriseZones\<close> returns the empty list whenever the
  response body parses as JSON and either the response is not OK, or it is OK and the
  body is a value other than \<open>null\<close> whose \<open>result\<close> is missing or falsy; the
  per-account fetch (with no recent current-month cache entry and no cached zone list)
  then takes the zero-zones path and returns the all-zero metrics.
\<close>

theorem failed_zone_lookup_with_json_body:
  "(\<not> ok \<or> data = JsonBody NoResult) \<longrightarrow>
     fetchEnterpriseZones (HttpResponse ok (Some data)) acctId = Inr []
     \<and> (zonesResponse up = HttpResponse ok (Some data)
        \<and> recentCurrentMonth (kv_get_currentMonth (CONFIG_KV e) (''current-month:'' @ acctId @ '':'' @ dateHour)) now = None
        \<and> kv_get_zones (CONFIG_KV e) (''zones:'' @ acctId) = None
        \<longrightarrow> (\<exists>calls. fetchAccountMetrics up rest e now dateHour acctId
                         = (Inr (emptyMetrics acctId (accountNameResponse up)), e, calls)
                       \<and> list_all (\<lambda>c. \<not> isAnalyticsQuery c) calls))"
proof (intro impI)
  assume h: "\<not> ok \<or> data = JsonBody NoResult"
  then have z: "fetchEnterpriseZones (HttpResponse ok (Some data)) acctId = Inr []"
    by (auto simp add: fetchEnterpriseZones_def)
  have "\<exists>calls. fetchAccountMetrics up rest e now dateHour acctId
                         = (Inr (emptyMetrics acctId (accountNameResponse up)), e, calls)
                       \<and> list_all (\<lambda>c. \<not> isAnalyticsQuery c) calls"
    if "zonesResponse up = HttpResponse ok (Some data)"
      and "recentCurrentMonth (kv_get_currentMonth (CONFIG_KV e) (''current-month:'' @ acctId @ '':'' @ dateHour)) now = None"
      and "kv_get_zones (CONFIG_KV e) (''zones:'' @ acctId) = None"
    using that z by (intro fetchAccountMetrics_no_zones) simp_all
  with z show "fetchEnterpriseZones (HttpResponse ok (Some data)) acctId = Inr []
     \<and> (zonesResponse up = HttpResponse ok (Some data)
        \<and> recentCurrentMonth (kv_get_currentMonth (CONFIG_KV e) (''current-month:'' @ acctId @ '':'' @ dateHour)) now = None
        \<and> kv_get_zones (CONFIG_KV e) (''zones:'' @ acctId) = None
        \<longrightarrow> (\<exists>calls. fetchAccountMetrics up rest e now dateHour acctId
                         = (Inr (emptyMetrics acctId (accountNameResponse up)), e, calls)
                       \<and> list_all (\<lambda>c. \<not> isAnalyticsQuery c) calls))"
    by blast
qed

theorem failed_zone_lookup_witness:
  "fetchEnterpriseZones (HttpResponse False (Some JsonNull)) ''acct1'' = Inr []
   \<and> fetchEnterpriseZones (HttpResponse True (Some (JsonBody NoResult))) ''acct1'' = Inr []
   \<and> (\<exists>calls. fetchAccountMetrics
                 \<lparr> accountNameResponse = None,
                   zonesResponse = HttpResponse True (Some (JsonBody NoResult)) \<rparr>
                 queryingRest envEmpty 1000 ''2025-01-01-00'' ''acct1''
               = (Inr (emptyMetrics ''acct1'' None), envEmpty, calls)
             \<and> list_all (\<lambda>c. \<not> isAnalyticsQuery c) calls)"
  using failed_zone_lookup_with_json_body
          [of False JsonNull "''acct1''"
              "\<lparr> accountNameResponse = None, zonesResponse = HttpResponse False (Some JsonNull) \<rparr>"
              envEmpty "''2025-01-01-00''" 1000 queryingRest]
        failed_zone_lookup_with_json_body
          [of True "JsonBody NoResult" "''acct1''"
              "\<lparr> accountNameResponse = None,
                 zonesResponse = HttpResponse True (Some (JsonBody NoResult)) \<rparr>"
              envEmpty "''2025-01-01-00''" 1000 queryingRest]
  by (simp add: envEmpty_lookups)

text \<open>
  The function is not total over upstream failures, and a response that is not OK or
  carries no result array can make it throw. \<open>response.json()\<close> runs before the
  \<open>ok\<close> check, so a non-OK response whose body is not JSON throws a SyntaxError; on an
  OK response, a body \<open>null\<close> throws on \<open>data.result\<close>, and a \<open>result\<close> that is truthy
  but not an array throws on \<open>data.result.filter\<close>. Nothing catches these, and the
  per-account fetch propagates the error to its caller.
\<close>

theorem failed_zone_lookup_can_throw:
  "fetchEnterpriseZones (HttpResponse False None) ''acct1'' = Inl SyntaxError
   \<and> fetchEnterpriseZones (HttpResponse True (Some JsonNull)) ''acct1'' = Inl TypeError
   \<and> fetchEnterpriseZones (HttpResponse True (Some (JsonBody ResultOther))) ''acct1'' = Inl TypeError
   \<and> fetchAccountMetrics \<lparr> accountNameResponse = None, zonesResponse = HttpResponse False None \<rparr>
        queryingRest envEmpty 1000 ''2025-01-01-00'' ''acct1''
      = (Inl SyntaxError, envEmpty, [AccountLookup ''acct1'', ZoneDiscovery ''acct1''])
   \<and> fetchAccountMetrics
        \<lparr> accountNameResponse = None, zonesResponse = HttpResponse True (Some (JsonBody ResultOther)) \<rparr>
        queryingRest envEmpty 1000 ''2025-01-01-00'' ''acct1''
      = (Inl TypeError, envEmpty, [AccountLookup ''acct1'', ZoneDiscovery ''acct1''])"
  by (simp add: fetchEnterpriseZones_def fetchAccountMetrics_def Let_def envEmpty_lookups)

text \<open>
  For completeness, the function returns a list or throws according to the body alone:
  it throws exactly on a rejected fetch, on a body that is not JSON, and, when the
  response is OK, on a \<open>null\<close> body, on a truthy \<open>result\<close> that is not an array, on an
  array with a \<open>null\<close> element, and on a zone of the account whose plan name is neither
  nullish nor a string while its \<open>legacy_id\<close> is not \<open>enterprise\<close>.
\<close>

lemma fetchEnterpriseZones_throws_iff:
  "(\<exists>err. fetchEnterpriseZones response acctId = Inl err) \<longleftrightarrow>
     (case response of
        FetchFailed \<Rightarrow> True
      | HttpResponse ok body \<Rightarrow>
          (case body of
             None \<Rightarrow> True
           | Some data \<Rightarrow>
               ok \<and> (case data of
                       JsonNull \<Rightarrow> True
                     | JsonBody NoResult \<Rightarrow> False
                     | JsonBody ResultOther \<Rightarrow> True
                     | JsonBody (ResultArray zs) \<Rightarrow>
                         list_ex (\<lambda>z. z = NullElement) zs \<or>
                         list_ex planNameThrows
                           (filter (\<lambda>z. zone_account_id z = Some acctId) (zoneObjects zs)))))"
  by (auto simp add: fetchEnterpriseZones_def Let_def
      split: http_result.splits option.splits zones_body.splits result_field.splits)

section \<open>Threshold evaluation\<close>

lemma checkMetric_cases:
  "checkMetric m t k ev =
     ev\<lparr> divisions := divisions ev @ (if evaluated m t k then [(k, the (m k), the (t k))] else []),
         alerts := alerts ev @ (if breached m t k then [alertFor m t k] else []) \<rparr>"
  by (simp add: checkMetric_def evaluated_def breached_def alertFor_def Let_def)

lemma fold_checkMetric:
  "fold (checkMetric m t) ks ev =
     ev\<lparr> divisions := divisions ev @ map (\<lambda>k. (k, the (m k), the (t k))) (filter (evaluated m t) ks),
         alerts := alerts ev @ map (alertFor m t) (filter (breached m t) ks) \<rparr>"
proof (induction ks arbitrary: ev)
  case Nil
  then show ?case by simp
next
  case (Cons k ks)
  show ?case
    by (simp only: fold_simps Cons.IH) (simp add: checkMetric_cases)
qed

lemma thresholdAlerts_alerts:
  "alerts (thresholdAlerts m t) = map (alertFor m t) (filter (breached m t) trackedMetrics)"
  by (simp add: thresholdAlerts_def fold_checkMetric)

lemma thresholdAlerts_divisions:
  "divisions (thresholdAlerts m t) =
     map (\<lambda>k. (k, the (m k), the (t k))) (filter (evaluated m t) trackedMetrics)"
  by (simp add: thresholdAlerts_def fold_checkMetric)

lemma trackedMetrics_all: "k \<in> set trackedMetrics"
  by (cases k) (simp_all add: trackedMetrics_def)

lemma trackedMetrics_distinct: "distinct trackedMetrics"
  by (simp add: trackedMetrics_def)

lemma filter_map_key:
  assumes "distinct xs" and "\<And>x. key (mk x) = h x" and "inj h"
  shows "filter (\<lambda>a. key a = h k) (map mk (filter P xs)) = (if k \<in> set xs \<and> P k then [mk k] else [])"
  using assms(1)
proof (induction xs)
  case Nil
  then show ?case by simp
next
  case (Cons x xs)
  have eq: "(h x = h k) = (x = k)" using assms(3) by (auto dest: injD)
  from Cons show ?case
    by (auto simp add: assms(2) eq)
qed

lemma alerts_by_key:
  "filter (\<lambda>a. alert_key a = Some k) (alerts (thresholdAlerts m t)) =
     (if breached m t k then [alertFor m t k] else [])"
  unfolding thresholdAlerts_alerts
  using filter_map_key [of trackedMetrics alert_key "alertFor m t" Some k "breached m t"]
  by (simp add: trackedMetrics_distinct trackedMetrics_all alertFor_def)

lemma divisions_by_key:
  "filter (\<lambda>d. fst d = k) (divisions (thresholdAlerts m t)) =
     (if evaluated m t k then [(k, the (m k), the (t k))] else [])"
  unfolding thresholdAlerts_divisions
  using filter_map_key [of trackedMetrics fst "\<lambda>k. (k, the (m k), the (t k))" "\<lambda>k. k" k "evaluated m t"]
  by (simp add: trackedMetrics_distinct trackedMetrics_all)

lemma divisions_nonzero:
  "list_all (\<lambda>(k, cur, thr). cur \<noteq> 0 \<and> thr \<noteq> 0) (divisions (thresholdAlerts m t))"
  unfolding thresholdAlerts_divisions
  by (auto simp add: list_all_iff evaluated_def truthy_def split: option.splits)

text \<open>
  C9. Every division the request-driven evaluator performs has a non-zero dividend and a
  non-zero divisor, because the block of each metric is entered only when both
  \<open>metrics.X\<close> and \<open>thresholds.X\<close> are truthy. A metric whose current value or
  threshold is 0 or absent is skipped: it contributes no alert and no division; a metric
  with both values truthy is divided exactly once.
\<close>

theorem evaluator_guards_every_division:
  "list_all (\<lambda>(k, cur, thr). cur \<noteq> 0 \<and> thr \<noteq> 0) (divisions (thresholdAlerts m t))
   \<and> (\<not> truthy (m k) \<or> \<not> truthy (t k) \<longrightarrow>
        filter (\<lambda>a. alert_key a = Some k) (alerts (thresholdAlerts m t)) = []
        \<and> filter (\<lambda>d. fst d = k) (divisions (thresholdAlerts m t)) = [])
   \<and> (truthy (m k) \<and> truthy (t k) \<longrightarrow>
        filter (\<lambda>d. fst d = k) (divisions (thresholdAlerts m t)) = [(k, the (m k), the (t k))])"
  using divisions_nonzero [of m t]
  by (auto simp add: alerts_by_key divisions_by_key breached_def evaluated_def)

theorem evaluator_guards_witness:
  "\<not> truthy (onlyMetric Requests 0 Requests)
   \<and> filter (\<lambda>a. alert_key a = Some Requests)
        (alerts (thresholdAlerts (onlyMetric Requests 0) (onlyMetric Requests 100))) = []
   \<and> filter (\<lambda>d. fst d = Requests)
        (divisions (thresholdAlerts (onlyMetric Requests 0) (onlyMetric Requests 100))) = []
   \<and> truthy (onlyMetric Requests 95 Requests) \<and> truthy (onlyMetric Requests 100 Requests)
   \<and> filter (\<lambda>d. fst d = Requests)
        (divisions (thresholdAlerts (onlyMetric Requests 95) (onlyMetric Requests 100)))
       = [(Requests, 95, 100)]"
  using evaluator_guards_every_division [of "onlyMetric Requests 0" "onlyMetric Requests 100" Requests]
        evaluator_guards_every_division [of "onlyMetric Requests 95" "onlyMetric Requests 100" Requests]
  by (simp add: onlyMetric_def truthy_def)

text \<open>
  The request-driven evaluator alerts on a metric with both values present exactly when
  \<open>current / threshold * 100 >= 90\<close>: 89.9 of 100 gives no alert, 90 of 100 gives one.
\<close>

lemma request_evaluator_boundary:
  "truthy (m k) \<Longrightarrow> truthy (t k) \<Longrightarrow>
     filter (\<lambda>a. alert_key a = Some k) (alerts (thresholdAlerts m t)) =
       (if the (m k) / the (t k) * 100 \<ge> 90 then [alertFor m t k] else [])"
  by (simp add: alerts_by_key breached_def evaluated_def)

lemma request_evaluator_examples:
  "alerts (thresholdAlerts (onlyMetric Requests (899 / 10)) (onlyMetric Requests 100)) = []"
  "alerts (thresholdAlerts (onlyMetric Requests 90) (onlyMetric Requests 100))
     = [alertFor (onlyMetric Requests 90) (onlyMetric Requests 100) Requests]"
  by (simp_all add: thresholdAlerts_alerts trackedMetrics_def breached_def evaluated_def
      onlyMetric_def truthy_def)

text \<open>
  C5. The scheduled check does not use the 90 % boundary of the request-driven evaluator:
  each of its blocks tests \<open>current > threshold\<close>. With a request threshold of 100 it
  raises no alert at 95 requests, nor at exactly 100, where the request-driven evaluator
  alerts at 95 %.
\<close>

theorem scheduled_check_uses_strict_threshold:
  "scheduledAlerts configAlerts (currentRequests 95) 0 = []
   \<and> scheduledAlerts configAlerts (currentRequests 100) 0 = []
   \<and> alerts (thresholdAlerts (onlyMetric Requests 95) (onlyMetric Requests 100))
       = [alertFor (onlyMetric Requests 95) (onlyMetric Requests 100) Requests]
   \<and> percentage (alertFor (onlyMetric Requests 95) (onlyMetric Requests 100) Requests) = 95"
  by (simp add: scheduledAlerts_def scheduledCheck_def configAlerts_def currentRequests_def truthy_def Let_def
      thresholdAlerts_alerts trackedMetrics_def breached_def evaluated_def onlyMetric_def alertFor_def)

section \<open>Alert de-duplication\<close>

lemma kv_truthy_put_same: "kv_truthy (kv_put kv key (KvText ''true'') ttl) key"
  by (simp add: kv_truthy_def kv_put_def)

lemma kv_truthy_put_mono: "kv_truthy kv key' \<Longrightarrow> kv_truthy (kv_put kv key (KvText ''true'') ttl) key'"
  by (simp add: kv_truthy_def kv_put_def)

lemma markIfNew_mono:
  "kv_truthy kv key \<Longrightarrow> kv_truthy (fst (markIfNew K mo a (kv, acc))) key"
  by (simp add: markIfNew_def Let_def kv_truthy_put_mono)

lemma markIfNew_marks:
  "kv_truthy (fst (markIfNew K mo a (kv, acc))) (alertKey K a mo)"
  by (simp add: markIfNew_def Let_def kv_truthy_put_same)

lemma fold_markIfNew_mono:
  "kv_truthy kv key \<Longrightarrow> kv_truthy (fst (fold (markIfNew K mo) found (kv, acc))) key"
proof (induction found arbitrary: kv acc)
  case Nil
  then show ?case by simp
next
  case (Cons a found)
  obtain kv' acc' where st: "markIfNew K mo a (kv, acc) = (kv', acc')" by (cases "markIfNew K mo a (kv, acc)")
  have "kv_truthy kv' key" using markIfNew_mono [OF Cons.prems, of K mo a acc] st by simp
  from Cons.IH [OF this] show ?case by (simp add: st)
qed

lemma fold_markIfNew_marks:
  "a \<in> set found \<Longrightarrow> kv_truthy (fst (fold (markIfNew K mo) found (kv, acc))) (alertKey K a mo)"
proof (induction found arbitrary: kv acc)
  case Nil
  then show ?case by simp
next
  case (Cons b found)
  obtain kv' acc' where st: "markIfNew K mo b (kv, acc) = (kv', acc')" by (cases "markIfNew K mo b (kv, acc)")
  show ?case
  proof (cases "a = b")
    case True
    have "kv_truthy kv' (alertKey K a mo)" using markIfNew_marks [of K mo b kv acc] st True by simp
    from fold_markIfNew_mono [OF this] show ?thesis by (simp add: st)
  next
    case False
    then have "a \<in> set found" using Cons.prems by simp
    from Cons.IH [OF this] show ?thesis by (simp add: st)
  qed
qed

lemma fold_markIfNew_all_sent:
  "list_all (\<lambda>a. kv_truthy kv (alertKey K a mo)) found \<Longrightarrow>
     fold (markIfNew K mo) found (kv, acc) = (kv, acc)"
  by (induction found) (simp_all add: markIfNew_def Let_def)

lemma checkThresholds_store:
  assumes "\<not> forceTest body"
  shows "fst (snd (checkThresholds e mo post body)) =
     (if length (alerts (thresholdAlerts (metrics body) (thresholds body))) > 0
         \<and> truthy_string (body_slackWebhook body)
      then e\<lparr> CONFIG_KV := fst (fold (markIfNew (join ''-'' (sort (requestAccounts body))) mo)
               (alerts (thresholdAlerts (metrics body) (thresholds body))) (CONFIG_KV e, [])) \<rparr>
      else e)"
  using assms
  by (simp add: checkThresholds_def Let_def split: sum.splits)

lemma checkThresholds_all_marked:
  assumes "\<not> forceTest body"
    and "list_all (\<lambda>a. kv_truthy (CONFIG_KV e) (alertKey (join ''-'' (sort (requestAccounts body))) a mo))
           (alerts (thresholdAlerts (metrics body) (thresholds body)))"
  shows "snd (snd (checkThresholds e mo post body)) = []"
  using assms(1) fold_markIfNew_all_sent [OF assms(2), of "[]"]
  by (simp add: checkThresholds_def Let_def)

lemma checkThresholds_second_call_silent:
  assumes nt: "\<not> forceTest body"
  shows "snd (snd (checkThresholds (fst (snd (checkThresholds e mo post1 body))) mo post2 body)) = []"
proof -
  let ?found = "alerts (thresholdAlerts (metrics body) (thresholds body))"
  let ?K = "join ''-'' (sort (requestAccounts body))"
  let ?e1 = "fst (snd (checkThresholds e mo post1 body))"
  show ?thesis
  proof (cases "length ?found > 0 \<and> truthy_string (body_slackWebhook body)")
    case False
    then have "snd (snd (checkThresholds e' mo post2 body)) = []" for e'
      using nt by (auto simp add: checkThresholds_def Let_def)
    then show ?thesis .
  next
    case True
    let ?kv1 = "fst (fold (markIfNew ?K mo) ?found (CONFIG_KV e, []))"
    have e1: "?e1 = e\<lparr> CONFIG_KV := ?kv1 \<rparr>"
      using True by (simp add: checkThresholds_store [OF nt])
    have "list_all (\<lambda>a. kv_truthy ?kv1 (alertKey ?K a mo)) ?found"
      by (simp add: list_all_iff fold_markIfNew_marks)
    then have "list_all (\<lambda>a. kv_truthy (CONFIG_KV ?e1) (alertKey ?K a mo)) ?found"
      by (simp add: e1)
    with nt show ?thesis by (rule checkThresholds_all_marked)
  qed
qed

text \<open>
  On the request-driven evaluator: a first call in January with a breaching value sends
  one message and writes the marker \<open>alert-sent:acct1:requests:2025-01\<close> with a TTL of
  45 days; a second call in January sends nothing; a call in February sends again.
\<close>

lemma checkThresholds_three_calls:
  "snd (snd (checkThresholds envAlerts ''2025-01'' (PostStatus True) (checkBody 95 100)))
     = [\<lparr> post_url = ''https://hooks.example/T'',
          post_message = AlertMessage (JAlerts [alertFor (onlyMetric Requests 95) (onlyMetric Requests 100) Requests]) \<rparr>]
   \<and> CONFIG_KV (fst (snd (checkThresholds envAlerts ''2025-01'' (PostStatus True) (checkBody 95 100))))
        ''alert-sent:acct1:requests:2025-01''
     = Some \<lparr> kv_value = KvText ''true'', expirationTtl = Some (45 * 24 * 60 * 60) \<rparr>
   \<and> snd (snd (checkThresholds (fst (snd (checkThresholds envAlerts ''2025-01'' (PostStatus True) (checkBody 95 100))))
                ''2025-01'' (PostStatus True) (checkBody 95 100))) = []
   \<and> snd (snd (checkThresholds (fst (snd (checkThresholds envAlerts ''2025-01'' (PostStatus True) (checkBody 95 100))))
                ''2025-02'' (PostStatus True) (checkBody 95 100)))
     = [\<lparr> post_url = ''https://hooks.example/T'',
          post_message = AlertMessage (JAlerts [alertFor (onlyMetric Requests 95) (onlyMetric Requests 100) Requests]) \<rparr>]"
proof -
  have found: "alerts (thresholdAlerts (metrics (checkBody 95 100)) (thresholds (checkBody 95 100)))
                 = [alertFor (onlyMetric Requests 95) (onlyMetric Requests 100) Requests]"
    by (simp add: thresholdAlerts_alerts trackedMetrics_def breached_def evaluated_def onlyMetric_def
        truthy_def checkBody_def)
  have key: "alertKey ''acct1'' (alertFor (onlyMetric Requests 95) (onlyMetric Requests 100) Requests) mo
               = ''alert-sent:acct1:requests:'' @ mo" for mo
    by (simp add: alertKey_def alertFor_def metricKeyString_def)
  have body: "forceTest (checkBody 95 100) = False"
    "body_slackWebhook (checkBody 95 100) = Some ''https://hooks.example/T''"
    "requestAccounts (checkBody 95 100) = [''acct1'']"
    by (simp_all add: checkBody_def requestAccounts_def)
  have first: "checkThresholds envAlerts ''2025-01'' (PostStatus True) (checkBody 95 100) =
     (ThresholdReport [alertFor (onlyMetric Requests 95) (onlyMetric Requests 100) Requests] True (Some True) (Some 0),
      envAlerts\<lparr> CONFIG_KV := kv_put (CONFIG_KV envAlerts) ''alert-sent:acct1:requests:2025-01'' (KvText ''true'') (Some 3888000) \<rparr>,
      [\<lparr> post_url = ''https://hooks.example/T'',
          post_message = AlertMessage (JAlerts [alertFor (onlyMetric Requests 95) (onlyMetric Requests 100) Requests]) \<rparr>])"
    by (simp add: checkThresholds_def Let_def found body truthy_string_def markIfNew_def key
        kv_truthy_def envAlerts_def sendSlackAlert_def)
  show ?thesis
    by (simp add: first checkThresholds_def Let_def found body truthy_string_def markIfNew_def key
        kv_truthy_def kv_put_def envAlerts_def sendSlackAlert_def)
qed

text \<open>
  Still on the request-driven evaluator, for any request: the alerts of one evaluation
  have pairwise different marker keys, so in a month for which none of them is marked
  (such as the first call after the month has rolled over) all of them are sent in one
  message.
\<close>

lemma metricKeyString_inj: "metricKeyString k = metricKeyString k' \<Longrightarrow> k = k'"
  by (cases k; cases k') (simp_all add: metricKeyString_def)

lemma alertKey_alertFor:
  "alertKey K (alertFor m t k) mo = ''alert-sent:'' @ K @ '':'' @ metricKeyString k @ '':'' @ mo"
  by (simp add: alertKey_def alertFor_def)

lemma alertKey_inj:
  assumes "alertKey K (alertFor m t k) mo = alertKey K (alertFor m t k') mo"
  shows "k = k'"
proof -
  from assms have "metricKeyString k @ ('':'' @ mo) = metricKeyString k' @ ('':'' @ mo)"
    by (simp add: alertKey_alertFor)
  then have "metricKeyString k = metricKeyString k'" by (simp only: append_same_eq)
  then show ?thesis by (rule metricKeyString_inj)
qed

lemma thresholdAlerts_keys_distinct:
  "distinct (map (\<lambda>a. alertKey K a mo) (alerts (thresholdAlerts m t)))"
proof -
  have "inj_on (\<lambda>k. alertKey K (alertFor m t k) mo) (set (filter (breached m t) trackedMetrics))"
    by (rule inj_onI) (rule alertKey_inj)
  moreover have "distinct (filter (breached m t) trackedMetrics)"
    by (simp add: trackedMetrics_distinct)
  ultimately have "distinct (map (\<lambda>k. alertKey K (alertFor m t k) mo) (filter (breached m t) trackedMetrics))"
    by (simp add: distinct_map)
  then show ?thesis by (simp add: thresholdAlerts_alerts comp_def)
qed

lemma kv_truthy_put_other:
  "key' \<noteq> key \<Longrightarrow> kv_truthy (kv_put kv key v ttl) key' = kv_truthy kv key'"
  by (simp add: kv_truthy_def kv_put_def)

lemma fold_markIfNew_fresh:
  "distinct (map (\<lambda>a. alertKey K a mo) found) \<Longrightarrow>
   list_all (\<lambda>a. \<not> kv_truthy kv (alertKey K a mo)) found \<Longrightarrow>
     snd (fold (markIfNew K mo) found (kv, acc)) = acc @ found"
proof (induction found arbitrary: kv acc)
  case Nil
  then show ?case by simp
next
  case (Cons a found)
  let ?kv' = "kv_put kv (alertKey K a mo) (KvText ''true'') (Some 3888000)"
  have step: "markIfNew K mo a (kv, acc) = (?kv', acc @ [a])"
    using Cons.prems(2) by (simp add: markIfNew_def Let_def)
  have d: "distinct (map (\<lambda>a. alertKey K a mo) found)" using Cons.prems(1) by simp
  have "list_all (\<lambda>b. \<not> kv_truthy ?kv' (alertKey K b mo)) found"
    unfolding list_all_iff
  proof
    fix b assume b: "b \<in> set found"
    have "alertKey K a mo \<notin> (\<lambda>a. alertKey K a mo) ` set found" using Cons.prems(1) by simp
    with b have "alertKey K b mo \<noteq> alertKey K a mo" by (metis imageI)
    moreover have "\<not> kv_truthy kv (alertKey K b mo)"
      using Cons.prems(2) b by (simp add: list_all_iff)
    ultimately show "\<not> kv_truthy ?kv' (alertKey K b mo)"
      by (simp add: kv_truthy_put_other)
  qed
  from Cons.IH [OF d this, of "acc @ [a]"] show ?case
    by (simp add: step)
qed

lemma checkThresholds_unmarked_month:
  assumes "\<not> forceTest body" and "truthy_string (body_slackWebhook body)"
    and "alerts (thresholdAlerts (metrics body) (thresholds body)) \<noteq> []"
    and "list_all (\<lambda>a. \<not> kv_truthy (CONFIG_KV e) (alertKey (join ''-'' (sort (requestAccounts body))) a mo))
           (alerts (thresholdAlerts (metrics body) (thresholds body)))"
  shows "snd (snd (checkThresholds e mo (PostStatus True) body)) =
     [\<lparr> post_url = the (body_slackWebhook body),
        post_message = AlertMessage (JAlerts (alerts (thresholdAlerts (metrics body) (thresholds body)))) \<rparr>]"
proof -
  let ?found = "alerts (thresholdAlerts (metrics body) (thresholds body))"
  let ?K = "join ''-'' (sort (requestAccounts body))"
  have new: "snd (fold (markIfNew ?K mo) ?found (CONFIG_KV e, [])) = ?found"
    using fold_markIfNew_fresh [OF thresholdAlerts_keys_distinct assms(4), of "[]"] by simp
  show ?thesis
    using assms(1,2,3) by (simp add: checkThresholds_def Let_def new sendSlackAlert_def)
qed

text \<open>
  C6. The scheduled check does not de-duplicate per metric: before sending it looks at the
  single marker \<open>alerts-sent:<first account>:<YYYY-MM>\<close>, and it calls
  \<open>sendSlackAlert(config.slackWebhook, alerts, accountIds)\<close> with the webhook in the
  place of the alerts, which throws before anything is posted. With a breach present
  (150 requests against a threshold of 100), no marker stored and a healthy webhook, the
  run sends nothing and records nothing, in January and again in February.
\<close>

theorem scheduled_check_never_notifies:
  "scheduledAlerts configAlerts (currentRequests 150) 0 \<noteq> []
   \<and> \<not> kv_truthy (CONFIG_KV envAlerts) ''alerts-sent:acct1:2025-01''
   \<and> runScheduledThresholdCheck envAlerts ''2025-01'' (PostStatus True) (Some (currentRequests 150, 0))
       = (envAlerts, [])
   \<and> runScheduledThresholdCheck envAlerts ''2025-02'' (PostStatus True) (Some (currentRequests 150, 0))
       = (envAlerts, [])"
  by (simp add: scheduledAlerts_def scheduledCheck_def configAlerts_def currentRequests_def truthy_def Let_def
      runScheduledThresholdCheck_def envAlerts_def kv_get_config_def truthy_string_def
      configuredAccountIds_def kv_truthy_def sendSlackAlert_def)

theorem scheduled_check_never_notifies_witness:
  "snd (runScheduledThresholdCheck envAlerts ''2025-01'' (PostStatus True) (Some (currentRequests 150, 0))) = []
   \<and> CONFIG_KV (fst (runScheduledThresholdCheck envAlerts ''2025-01'' (PostStatus True)
                       (Some (currentRequests 150, 0)))) ''alerts-sent:acct1:2025-01'' = None"
  using scheduled_check_never_notifies
  by (simp add: envAlerts_def)

end
